theory Spec2Isabelle
  imports Main "HOL-Library.AList"
begin

section \<open>Values shared by the two clients\<close>

text \<open>
  The repository holds two generations of the same client: \<open>StitchClient\<close>
  (\<open>src/client.js\<close>, ES6) and the older \<open>BaasClient\<close> (the compiled legacy
  bundle in the same file).  Both send requests through \<open>fetch\<close>, classify the
  response and refresh the access token when the service reports an invalid session.

  A promise is modelled by its settled value: \<open>Inr v\<close> when it resolves with \<open>v\<close>,
  \<open>Inl e\<close> when it rejects with (or the function throws) \<open>e\<close>.  Session state, the
  network and a ghost trace of the calls made are threaded through a \<open>world\<close>.
\<close>

subsection \<open>JSON values\<close>

text \<open>
  A decoded JSON value.  \<open>JObj\<close> lists the own properties of a parsed object in
  order (keys distinct).  \<open>undefined\<close>, which is not a JSON value, is \<open>None\<close> of
  \<open>json option\<close>.  A number is kept as the text that \<open>String\<close> gives for it (a
  JavaScript number is a double, and that text identifies it).
\<close>

datatype json =
    JNull
  | JBool bool
  | JNum string
  | JStr string
  | JArr "json list"
  | JObj "(string \<times> json) list"

text \<open>
  The property read \<open>json[k]\<close> for the keys the clients read (\<open>error\<close>,
  \<open>errorCode\<close>, \<open>accessToken\<close>): an object yields its own property, arrays and
  primitives have no such property.  (On \<open>null\<close> the read throws; every caller
  below tests for that case before reading.)
\<close>

fun get_prop :: "json \<Rightarrow> string \<Rightarrow> json option" where
  "get_prop (JObj kvs) k = map_of kvs k"
| "get_prop _ k = None"

text \<open>
  The expression \<open>'errorCode' in json\<close>: a \<open>TypeError\<close> (\<open>None\<close>) on \<open>null\<close>
  and on primitives, false on arrays, and on an object whether it has the key.
\<close>

fun in_errorCode :: "json \<Rightarrow> bool option" where
  "in_errorCode (JObj kvs) = Some (''errorCode'' \<in> fst ` set kvs)"
| "in_errorCode (JArr xs) = Some False"
| "in_errorCode _ = None"

fun join :: "string list \<Rightarrow> string" where
  "join [] = []"
| "join [s] = s"
| "join (s # t # ss) = s @ CHR '','' # join (t # ss)"

text \<open>
  \<open>String(json)\<close>, the conversion that \<open>new Error(json)\<close> applies to its argument
  and that \<open>==\<close> applies to an object compared with a string; \<open>None\<close> when it
  throws a \<open>TypeError\<close>.  A parsed object inherits \<open>Object.prototype.toString\<close>
  and renders as \<open>[object Object]\<close>, unless it has an own \<open>toString\<close> property:
  that property is a JSON value, hence not callable, and \<open>valueOf\<close> (a JSON value
  too, or the inherited one, which returns the object) gives no primitive, so the
  conversion throws.  An array renders as its elements joined by commas, \<open>null\<close>
  elements as the empty text, and throws when an element does.
\<close>

fun js_String :: "json \<Rightarrow> string option" where
  "js_String JNull = Some ''null''"
| "js_String (JBool b) = Some (if b then ''true'' else ''false'')"
| "js_String (JNum n) = Some n"
| "js_String (JStr s) = Some s"
| "js_String (JArr xs) =
     map_option join (those (map (\<lambda>x. if x = JNull then Some [] else js_String x) xs))"
| "js_String (JObj kvs) =
     (if ''toString'' \<in> fst ` set kvs then None else Some ''[object Object]'')"

text \<open>
  The loose comparison \<open>json['errorCode'] == 'InvalidSession'\<close> of the legacy
  client; \<open>None\<close> when it throws a \<open>TypeError\<close>.  A string compares by value; an
  object or array is converted to a primitive first (\<open>valueOf\<close> never gives one,
  so this is the conversion \<open>js_String\<close>) and that text is compared; numbers,
  booleans, \<open>null\<close> and \<open>undefined\<close> never compare equal to this text.
\<close>

fun loose_eq_InvalidSession :: "json option \<Rightarrow> bool option" where
  "loose_eq_InvalidSession (Some (JStr s)) = Some (s = ''InvalidSession'')"
| "loose_eq_InvalidSession (Some (JArr xs)) =
     map_option (\<lambda>s. s = ''InvalidSession'') (js_String (JArr xs))"
| "loose_eq_InvalidSession (Some (JObj kvs)) =
     map_option (\<lambda>s. s = ''InvalidSession'') (js_String (JObj kvs))"
| "loose_eq_InvalidSession _ = Some False"

text \<open>JavaScript truthiness of a value that is a string or absent.\<close>

fun truthy :: "string option \<Rightarrow> bool" where
  "truthy None = False"
| "truthy (Some s) = (s \<noteq> [])"

subsection \<open>Requests, responses, errors\<close>

text \<open>
  A header value is plain text or the text \<open>'Bearer ' + token\<close>; the latter keeps
  the token itself (\<open>None\<close> for \<open>undefined\<close>) in place of its rendering.
\<close>

datatype hval = Plain string | Bearer "json option"

record fetch_args =
  http_method :: string
  fa_headers :: "(string \<times> hval) list"
  fa_body :: "string option"

text \<open>
  What the clients read of a response: \<open>status\<close>, \<open>statusText\<close>,
  \<open>headers.get('Content-Type')\<close> (\<open>None\<close> for \<open>null\<close>) and the result of
  \<open>json()\<close> (\<open>None\<close> when the body does not parse, so that \<open>json()\<close> rejects).
\<close>

record response =
  status :: nat
  statusText :: string
  contentType :: "string option"
  json_body :: "json option"

text \<open>
  Rejection reasons.  \<open>StitchError message code response json\<close> is
  \<open>new StitchError(message, code)\<close> with the \<open>response\<close> and \<open>json\<close> properties
  attached afterwards (\<open>None\<close> when they are not).  \<open>Error message response\<close> is
  \<open>new Error(message)\<close> with the optional \<open>response\<close> property.
\<close>

datatype error =
    StitchError "json option" "json option" "response option" "json option"
  | Error string "response option"
  | SyntaxError
  | TypeError
  | FetchFailed

text \<open>
  What \<open>throw new Error(json)\<close> throws: the \<open>Error\<close> whose message is
  \<open>String(json)\<close>, with no \<open>response\<close> property, or the \<open>TypeError\<close> of that
  conversion.
\<close>

definition new_Error :: "json \<Rightarrow> error" where
  "new_Error json = (case js_String json of None \<Rightarrow> TypeError | Some message \<Rightarrow> Error message None)"

subsection \<open>The network and the trace\<close>

text \<open>
  The service is a script: the outcome of each \<open>fetch\<close> in turn, with the time
  that passes until it arrives.  \<open>fetch\<close> rejects (\<open>NetFail\<close>) on a transport
  failure; an exhausted script is a transport that fails from then on.
\<close>

datatype outcome = NetFail | Resp response

datatype origin = ByDispatch | ByRefresh

text \<open>
  Ghost events: \<open>Invoke resource method options\<close> marks an entry into the
  dispatcher, \<open>Fetch origin url args\<close> a network call, made by the dispatcher
  itself (the primary call) or by the token refresh.
\<close>

datatype 'o event =
    Invoke string string 'o
  | Fetch origin string fetch_args

record ('s, 'o) world =
  store :: 's
  clock :: nat
  script :: "(nat \<times> outcome) list"
  trace :: "'o event list"

definition invoked :: "string \<Rightarrow> string \<Rightarrow> 'o \<Rightarrow> ('s, 'o) world \<Rightarrow> ('s, 'o) world" where
  "invoked resource method opts w = w\<lparr>trace := trace w @ [Invoke resource method opts]\<rparr>"

text \<open>The world after a network call that was answered after \<open>dt\<close> time units.\<close>

definition answered ::
  "origin \<Rightarrow> string \<Rightarrow> fetch_args \<Rightarrow> nat \<Rightarrow> (nat \<times> outcome) list \<Rightarrow> ('s, 'o) world \<Rightarrow> ('s, 'o) world" where
  "answered who url args dt rest w =
     w\<lparr>clock := clock w + dt, script := rest, trace := trace w @ [Fetch who url args]\<rparr>"

definition fetch ::
  "origin \<Rightarrow> string \<Rightarrow> fetch_args \<Rightarrow> ('s, 'o) world \<Rightarrow> outcome \<times> ('s, 'o) world" where
  "fetch who url args w =
     (case script w of
        [] \<Rightarrow> (NetFail, w\<lparr>trace := trace w @ [Fetch who url args]\<rparr>)
      | (dt, out) # rest \<Rightarrow> (out, answered who url args dt rest w))"

text \<open>\<open>Object.assign(target, source)\<close> on objects kept as property lists.\<close>

definition assign :: "(string \<times> 'v) list \<Rightarrow> (string \<times> 'v) list \<Rightarrow> (string \<times> 'v) list" where
  "assign target source = fold (\<lambda>(k, v). AList.update k v) source target"


section \<open>StitchClient\<close>

subsection \<open>Configuration and options\<close>

text \<open>
  The API versions, \<open>const v2 = 2\<close> and \<open>const v3 = 3\<close>: the keys of
  \<open>rootURLsByAPIVersion\<close>.  (With any other value the lookup of the table row
  yields \<open>undefined\<close> and \<open>_do\<close> throws before it builds a request; such values
  are outside the model.)
\<close>

datatype api_version = V2 | V3

text \<open>
  What the constructor fixes, and what \<open>src/client.js\<close> imports from modules
  that are not part of the source at hand (\<open>./common\<close>, \<open>./errors\<close>,
  \<open>query-string\<close>): these are parameters of the model.  \<open>tokenExpiry\<close> decodes the
  expiry claim embedded in an access token (\<open>None\<close> when it cannot be decoded).
\<close>

record config =
  baseUrl :: string
  clientAppID :: "string option"
  JSONTYPE :: string
  ErrInvalidSession :: string
  ErrUnauthorized :: string
  makeFetchArgs :: "string \<Rightarrow> string option \<Rightarrow> fetch_args"
  stringify :: "(string \<times> string) list \<Rightarrow> string"
  tokenExpiry :: "string \<Rightarrow> nat option"

text \<open>
  The options of \<open>_do\<close> after \<open>Object.assign\<close> has merged the caller's options
  over the defaults; \<open>noAuth\<close>, \<open>headers\<close>, \<open>body\<close> and \<open>queryParams\<close> have no
  default and are falsy (\<open>False\<close>, \<open>None\<close>) when the caller leaves them out.
\<close>

record options =
  refreshOnFailure :: bool
  useRefreshToken :: bool
  apiVersion :: api_version
  apiType :: string
  noAuth :: bool
  headers :: "(string \<times> hval) list option"
  body :: "string option"
  queryParams :: "(string \<times> string) list option"

definition default_options :: options where
  "default_options =
     \<lparr>refreshOnFailure = True, useRefreshToken = False, apiVersion = V2, apiType = ''app'',
      noAuth = False, headers = None, body = None, queryParams = None\<rparr>"

text \<open>\<open>this.authUrl\<close> and \<open>this.rootURLsByAPIVersion\<close>, as the constructor builds them.\<close>

definition authUrl :: "config \<Rightarrow> string" where
  "authUrl cfg =
     (case clientAppID cfg of
        None \<Rightarrow> baseUrl cfg @ ''/api/admin/v3.0/auth''
      | Some a \<Rightarrow>
          if a \<noteq> [] then baseUrl cfg @ ''/api/client/v2.0/app/'' @ a @ ''/auth''
          else baseUrl cfg @ ''/api/admin/v3.0/auth'')"

definition rootURLsByAPIVersion :: "config \<Rightarrow> api_version \<Rightarrow> (string \<times> string) list" where
  "rootURLsByAPIVersion cfg v =
     (case v of
        V2 \<Rightarrow>
          [(''public'', baseUrl cfg @ ''/api/public/v2.0''),
           (''client'', baseUrl cfg @ ''/api/client/v2.0''),
           (''private'', baseUrl cfg @ ''/api/private/v2.0''),
           (''app'',
              (case clientAppID cfg of
                 None \<Rightarrow> baseUrl cfg @ ''/api/public/v2.0''
               | Some a \<Rightarrow>
                   if a \<noteq> [] then baseUrl cfg @ ''/api/client/v2.0/app/'' @ a
                   else baseUrl cfg @ ''/api/public/v2.0''))]
      | V3 \<Rightarrow>
          [(''public'', baseUrl cfg @ ''/api/public/v3.0''),
           (''client'', baseUrl cfg @ ''/api/client/v3.0''),
           (''app'',
              (case clientAppID cfg of
                 None \<Rightarrow> baseUrl cfg @ ''/api/admin/v3.0''
               | Some a \<Rightarrow>
                   if a \<noteq> [] then baseUrl cfg @ ''/api/client/v3.0/app/'' @ a
                   else baseUrl cfg @ ''/api/admin/v3.0''))])"

subsection \<open>The token store\<close>

text \<open>
  Modelled from the spec: the class \<open>Auth\<close> (\<open>./auth\<close>) behind \<open>this.auth\<close> is not
  part of the source at hand.  The spec's Session holds an access token, a refresh
  token and the identity of the authenticated user; each may be absent, and an
  absent session is one with all three absent.
\<close>

record session =
  accessToken :: "string option"
  refreshToken :: "string option"
  userId :: "string option"

type_synonym sworld = "(session, options) world"

text \<open>
  Modelled from the spec: \<open>Auth.authedId\<close>, \<open>Auth.getAccessToken\<close> and
  \<open>Auth.getRefreshToken\<close> are not part of the source at hand; they read the three
  fields of the stored session.
\<close>

definition authedId :: "sworld \<Rightarrow> string option" where
  "authedId w = userId (store w)"

definition getAccessToken :: "sworld \<Rightarrow> string option" where
  "getAccessToken w = accessToken (store w)"

definition getRefreshToken :: "sworld \<Rightarrow> string option" where
  "getRefreshToken w = refreshToken (store w)"

text \<open>
  Modelled from the spec: \<open>Auth.clear\<close> is not part of the source at hand;
  \<open>clear()\<close> removes all session state.
\<close>

definition clear :: "sworld \<Rightarrow> sworld" where
  "clear w = w\<lparr>store := \<lparr>accessToken = None, refreshToken = None, userId = None\<rparr>\<rparr>"

text \<open>
  Modelled from the spec: \<open>Auth.isAccessTokenExpired\<close> is not part of the source
  at hand.  It decodes the expiry claim embedded in the access token and compares
  it against the current time; an undecodable or missing token is treated as
  expired.
\<close>

definition isAccessTokenExpired :: "config \<Rightarrow> sworld \<Rightarrow> bool" where
  "isAccessTokenExpired cfg w =
     (case getAccessToken w of
        None \<Rightarrow> True
      | Some t \<Rightarrow> (case tokenExpiry cfg t of None \<Rightarrow> True | Some e \<Rightarrow> e \<le> clock w))"

text \<open>
  The structured invalid-session error: a status outside [200, 300), the JSON
  content type, and a decoded body whose \<open>errorCode\<close> is the invalid-session code.
\<close>

definition invalid_session :: "config \<Rightarrow> response \<Rightarrow> bool" where
  "invalid_session cfg r =
     (\<not> (200 \<le> status r \<and> status r < 300) \<and> contentType r = Some (JSONTYPE cfg) \<and>
      (case json_body r of
         None \<Rightarrow> False
       | Some j \<Rightarrow>
           in_errorCode j = Some True \<and>
           get_prop j ''errorCode'' = Some (JStr (ErrInvalidSession cfg))))"

text \<open>
  Modelled from the spec: the error of a failed renewal request, which is not
  part of the source at hand.  As in the spec's error taxonomy, a structured
  response gives an error carrying the response and the decoded body, any other
  response one carrying the status text.
\<close>

definition refresh_error :: "config \<Rightarrow> response \<Rightarrow> error" where
  "refresh_error cfg r =
     (if contentType r = Some (JSONTYPE cfg) then
        (case json_body r of
           None \<Rightarrow> Error (statusText r) (Some r)
         | Some j \<Rightarrow>
             StitchError (get_prop j ''error'') (get_prop j ''errorCode'') (Some r) (Some j))
      else Error (statusText r) (Some r))"

text \<open>
  Modelled from the spec: the renewal request, which is not part of the source at
  hand.  It is a \<open>POST\<close> whose bearer credential is the refresh token.
\<close>

definition refresh_args :: "config \<Rightarrow> sworld \<Rightarrow> fetch_args" where
  "refresh_args cfg w =
     (let fetchArgs = makeFetchArgs cfg ''POST'' None
      in fetchArgs\<lparr>fa_headers :=
           assign (fa_headers fetchArgs)
             [(''Authorization'', Bearer (map_option JStr (getRefreshToken w)))]\<rparr>)"

text \<open>
  Modelled from the spec: \<open>Auth.refreshToken\<close> (the spec's \<open>refreshAccessToken\<close>)
  is not part of the source at hand.  It sends one dedicated request, bearer the
  refresh token, to the token-renewal endpoint \<open>POST <authBase>/session\<close>.  On
  success it updates only the access-token field of the stored session; when the
  failure is an invalid-session signal it clears the session before the error
  propagates; any other failure propagates with the session as it was.  (A
  success response without a token is taken as malformed: it fails with the
  status text and leaves the session as it was.)
\<close>

definition Auth_refreshToken :: "config \<Rightarrow> sworld \<Rightarrow> (error + unit) \<times> sworld" where
  "Auth_refreshToken cfg w =
     (case fetch ByRefresh (authUrl cfg @ ''/session'') (refresh_args cfg w) w of
        (NetFail, w1) \<Rightarrow> (Inl FetchFailed, w1)
      | (Resp r, w1) \<Rightarrow>
          if 200 \<le> status r \<and> status r < 300 then
            (case json_body r of
               None \<Rightarrow> (Inl (Error (statusText r) (Some r)), w1)
             | Some j \<Rightarrow>
                 (case get_prop j ''accessToken'' of
                    Some (JStr t) \<Rightarrow> (Inr (), w1\<lparr>store := (store w1)\<lparr>accessToken := Some t\<rparr>\<rparr>)
                  | _ \<Rightarrow> (Inl (Error (statusText r) (Some r)), w1)))
          else if invalid_session cfg r then (Inl (refresh_error cfg r), clear w1)
          else (Inl (refresh_error cfg r), w1))"

subsection \<open>The dispatcher\<close>

text \<open>
  Lines 248 to 264 of \<open>_do\<close>: the URL and the arguments of the primary call.
  An API type that the table row does not have yields \<open>undefined\<close>, which the
  template literal renders as the text \<open>undefined\<close>; so does an absent token in
  \<open>Bearer ${token}\<close>, kept here as \<open>Bearer None\<close>.  \<open>queryParams\<close>, an object, is
  truthy whenever it is given.
\<close>

definition request_url :: "config \<Rightarrow> string \<Rightarrow> options \<Rightarrow> string" where
  "request_url cfg resource opts =
     (let appURL = (case map_of (rootURLsByAPIVersion cfg (apiVersion opts)) (apiType opts) of
                      None \<Rightarrow> ''undefined'' | Some u \<Rightarrow> u);
          url = appURL @ resource
      in case queryParams opts of
           None \<Rightarrow> url
         | Some q \<Rightarrow> url @ ''?'' @ stringify cfg q)"

definition request_args :: "config \<Rightarrow> string \<Rightarrow> options \<Rightarrow> sworld \<Rightarrow> fetch_args" where
  "request_args cfg method opts w =
     (let fetchArgs = makeFetchArgs cfg method (body opts);
          hs1 = (case headers opts of
                   None \<Rightarrow> fa_headers fetchArgs
                 | Some hs \<Rightarrow> assign (fa_headers fetchArgs) hs);
          hs2 = (if \<not> noAuth opts then
                   let token = (if useRefreshToken opts then getRefreshToken w
                                else getAccessToken w)
                   in assign hs1 [(''Authorization'', Bearer (map_option JStr token))]
                 else hs1)
      in fetchArgs\<lparr>fa_headers := hs2\<rparr>)"

function StitchClient_do ::
  "config \<Rightarrow> string \<Rightarrow> string \<Rightarrow> options \<Rightarrow> sworld \<Rightarrow> (error + response) \<times> sworld" where
  "StitchClient_do cfg resource method opts w0 =
     (let w = invoked resource method opts w0 in
      if \<not> noAuth opts \<and> \<not> truthy (authedId w) then
        (Inl (StitchError (Some (JStr ''Must auth first'')) (Some (JStr (ErrUnauthorized cfg)))
                None None), w)
      else if \<not> noAuth opts \<and> \<not> useRefreshToken opts \<and> isAccessTokenExpired cfg w then
        (case Auth_refreshToken cfg w of
           (Inl e, w1) \<Rightarrow> (Inl e, w1)
         | (Inr u, w1) \<Rightarrow>
             StitchClient_do cfg resource method (opts\<lparr>refreshOnFailure := False\<rparr>) w1)
      else
        (case fetch ByDispatch (request_url cfg resource opts) (request_args cfg method opts w) w of
           (NetFail, w1) \<Rightarrow> (Inl FetchFailed, w1)
         | (Resp response, w1) \<Rightarrow>
             if 200 \<le> status response \<and> status response < 300 then (Inr response, w1)
             else if contentType response = Some (JSONTYPE cfg) then
               (case json_body response of
                  None \<Rightarrow> (Inl SyntaxError, w1)
                | Some json \<Rightarrow>
                    (case in_errorCode json of
                       None \<Rightarrow> (Inl TypeError, w1)
                     | Some present \<Rightarrow>
                         if present \<and>
                            get_prop json ''errorCode'' = Some (JStr (ErrInvalidSession cfg))
                         then
                           if \<not> refreshOnFailure opts then
                             (Inl (StitchError (get_prop json ''error'')
                                     (get_prop json ''errorCode'') (Some response) (Some json)),
                              clear w1)
                           else
                             (case Auth_refreshToken cfg w1 of
                                (Inl e, w2) \<Rightarrow> (Inl e, w2)
                              | (Inr u, w2) \<Rightarrow>
                                  StitchClient_do cfg resource method
                                    (opts\<lparr>refreshOnFailure := False\<rparr>) w2)
                         else
                           (Inl (StitchError (get_prop json ''error'')
                                   (get_prop json ''errorCode'') (Some response) (Some json)),
                            w1)))
             else (Inl (Error (statusText response) (Some response)), w1)))"
  by pat_completeness auto


text \<open>
  Every recursive call follows a successful token refresh, and a refresh takes
  one outcome off the script, so the recursion ends with the script.
\<close>

termination StitchClient_do
proof -
  have f: "length (script w1) \<le> length (script w)"
    if "(out, w1) = fetch who url args w" for out who url args and w w1 :: sworld
    using that by (auto simp: fetch_def answered_def split: list.splits)
  have r: "length (script w1) < length (script w)"
    if "(Inr u, w1) = Auth_refreshToken cfg w" for u cfg w w1
    using that
    by (auto simp: Auth_refreshToken_def fetch_def answered_def clear_def
             split: list.splits outcome.splits if_splits option.splits json.splits)
  show ?thesis
    apply (relation "measure (\<lambda>(cfg, r, m, opts, w). length (script w))")
      apply simp
     apply (auto simp: invoked_def dest!: r f)
    done
qed

declare StitchClient_do.simps [simp del]

text \<open>
  \<open>authenticate\<close>.  The provider registry of \<open>Auth\<close> is not part of the source at
  hand: \<open>provider providerType options\<close> stands for
  \<open>this.auth.provider(providerType).authenticate(options)\<close>, which may fail (an
  unknown provider type included) and may change the world.
\<close>

definition StitchClient_authenticate ::
  "(string \<Rightarrow> 'a \<Rightarrow> sworld \<Rightarrow> (error + unit) \<times> sworld) \<Rightarrow> string \<Rightarrow> 'a \<Rightarrow> sworld \<Rightarrow>
     (error + string option) \<times> sworld" where
  "StitchClient_authenticate provider providerType authOptions w =
     (if truthy (getAccessToken w) then (Inr (authedId w), w)
      else
        (case provider providerType authOptions w of
           (Inl e, w1) \<Rightarrow> (Inl e, w1)
         | (Inr u, w1) \<Rightarrow> (Inr (authedId w1), w1)))"

section \<open>BaasClient\<close>

text \<open>
  \<open>localStorage\<close> holds two items: under \<open>_baas_ua\<close> the user auth object and
  under \<open>_baas_rt\<close> the refresh token.  The auth object is stored as
  \<open>btoa(JSON.stringify(json))\<close> and read back through \<open>JSON.parse(atob(...))\<close>; the
  model keeps the decoded value.  \<open>None\<close> is a missing item (\<open>getItem\<close> gives
  \<open>null\<close>).
\<close>

record local_storage =
  baas_ua :: "json option"
  baas_rt :: "string option"

text \<open>The last three arguments of \<open>_doAuthed\<close>; \<open>None\<close> is \<open>undefined\<close>.\<close>

type_synonym authed_args = "string option \<times> bool option \<times> bool option"

type_synonym bworld = "(local_storage, authed_args) world"

definition BaasClient_clearAuth :: "bworld \<Rightarrow> bworld" where
  "BaasClient_clearAuth w = w\<lparr>store := \<lparr>baas_ua = None, baas_rt = None\<rparr>\<rparr>"

definition BaasClient_auth :: "bworld \<Rightarrow> json" where
  "BaasClient_auth w = (case baas_ua (store w) of None \<Rightarrow> JNull | Some j \<Rightarrow> j)"

text \<open>
  \<open>_setAccessToken\<close>.  With no stored auth object \<open>atob(null)\<close> decodes the text
  \<open>null\<close> to bytes that \<open>JSON.parse\<close> rejects.  The assignment
  \<open>currAuth['accessToken'] = token\<close> throws on \<open>null\<close> and, the bundle being in
  strict mode, on a primitive; on an array it sets a property that
  \<open>JSON.stringify\<close> does not write.  \<open>JSON.stringify\<close> leaves out a property whose
  value is \<open>undefined\<close>.
\<close>

definition BaasClient_setAccessToken :: "json option \<Rightarrow> bworld \<Rightarrow> (error + unit) \<times> bworld" where
  "BaasClient_setAccessToken token w =
     (case baas_ua (store w) of
        None \<Rightarrow> (Inl SyntaxError, w)
      | Some currAuth \<Rightarrow>
          (case currAuth of
             JObj kvs \<Rightarrow>
               (Inr (),
                w\<lparr>store := (store w)\<lparr>baas_ua :=
                     Some (JObj (case token of
                                   None \<Rightarrow> AList.delete ''accessToken'' kvs
                                 | Some t \<Rightarrow> AList.update ''accessToken'' t kvs))\<rparr>\<rparr>)
           | JArr xs \<Rightarrow> (Inr (), w)
           | _ \<Rightarrow> (Inl TypeError, w)))"

definition bearer_item :: "string option \<Rightarrow> hval" where
  "bearer_item item = Bearer (Some (case item of None \<Rightarrow> JNull | Some s \<Rightarrow> JStr s))"

definition BaasClient_refreshToken :: "string \<Rightarrow> bworld \<Rightarrow> (error + unit) \<times> bworld" where
  "BaasClient_refreshToken appUrl w =
     (let rt = baas_rt (store w);
          hs = [(''Accept'', Plain ''application/json''),
                (''Content-Type'', Plain ''application/json''),
                (''Authorization'', bearer_item rt)]
      in case fetch ByRefresh (appUrl @ ''/auth/newAccessToken'')
                \<lparr>http_method = ''POST'', fa_headers = hs, fa_body = None\<rparr> w of
           (NetFail, w1) \<Rightarrow> (Inl FetchFailed, w1)
         | (Resp response, w1) \<Rightarrow>
             if status response \<noteq> 200 then
               if contentType response = Some ''application/json'' then
                 (case json_body response of
                    None \<Rightarrow> (Inl SyntaxError, w1)
                  | Some json \<Rightarrow>
                      (case in_errorCode json of
                         None \<Rightarrow> (Inl TypeError, w1)
                       | Some present \<Rightarrow>
                           if present then
                             (case loose_eq_InvalidSession (get_prop json ''errorCode'') of
                                None \<Rightarrow> (Inl TypeError, w1)
                              | Some invalid \<Rightarrow>
                                  (Inl (new_Error json),
                                   if invalid then BaasClient_clearAuth w1 else w1))
                           else (Inl (new_Error json), w1)))
               else (Inl (Error (statusText response) (Some response)), w1)
             else
               (case json_body response of
                  None \<Rightarrow> (Inl SyntaxError, w1)
                | Some json \<Rightarrow>
                    if json = JNull then (Inl TypeError, w1)
                    else BaasClient_setAccessToken (get_prop json ''accessToken'') w1))"

function BaasClient_doAuthed ::
  "string \<Rightarrow> string \<Rightarrow> string \<Rightarrow> string option \<Rightarrow> bool option \<Rightarrow> bool option \<Rightarrow> bworld \<Rightarrow>
     (error + response option) \<times> bworld" where
  "BaasClient_doAuthed appUrl resource method body_arg rof_arg urt_arg w0 =
     (let w = invoked resource method (body_arg, rof_arg, urt_arg) w0;
          refreshOnFailure = (case rof_arg of None \<Rightarrow> True | Some b \<Rightarrow> b);
          useRefreshToken = (case urt_arg of None \<Rightarrow> False | Some b \<Rightarrow> b)
      in
      if BaasClient_auth w = JNull then (Inl (Error ''Must auth first'' None), w)
      else
        (let url = appUrl @ resource;
             token = (if useRefreshToken then bearer_item (baas_rt (store w))
                      else Bearer (get_prop (BaasClient_auth w) ''accessToken''));
             hs = [(''Accept'', Plain ''application/json''),
                   (''Content-Type'', Plain ''application/json''),
                   (''Authorization'', token)];
             init = \<lparr>http_method = method, fa_headers = hs,
                     fa_body = (if truthy body_arg then body_arg else None)\<rparr>
         in case fetch ByDispatch url init w of
              (NetFail, w1) \<Rightarrow> (Inl FetchFailed, w1)
            | (Resp response, w1) \<Rightarrow>
                if 200 \<le> status response \<and> status response < 300 then (Inr (Some response), w1)
                else if contentType response = Some ''application/json'' then
                  (case json_body response of
                     None \<Rightarrow> (Inl SyntaxError, w1)
                   | Some json \<Rightarrow>
                       (case in_errorCode json of
                          None \<Rightarrow> (Inl TypeError, w1)
                        | Some present \<Rightarrow>
                            if present then
                              (case loose_eq_InvalidSession (get_prop json ''errorCode'') of
                                 None \<Rightarrow> (Inl TypeError, w1)
                               | Some invalid \<Rightarrow>
                                   if invalid then
                                     if \<not> refreshOnFailure then
                                       (Inl (new_Error json), BaasClient_clearAuth w1)
                                     else
                                       (case BaasClient_refreshToken appUrl w1 of
                                          (Inl e, w2) \<Rightarrow> (Inl e, w2)
                                        | (Inr u, w2) \<Rightarrow>
                                            BaasClient_doAuthed appUrl resource method body_arg
                                              (Some False) None w2)
                                   else (Inr None, w1))
                            else (Inr None, w1)))
                else (Inl (Error (statusText response) (Some response)), w1)))"
  by pat_completeness auto

text \<open>
  The retry passes \<open>false\<close> for \<open>refreshOnFailure\<close>, and a call with that value
  does not retry: this is the whole termination argument.
\<close>

termination BaasClient_doAuthed
  by (relation "measure (\<lambda>(appUrl, resource, method, body_arg, rof_arg, urt_arg, w).
                   if rof_arg = Some False then 0 else Suc 0)")
     (auto split: option.splits)

declare BaasClient_doAuthed.simps [simp del]


section \<open>Notions used by the properties\<close>

text \<open>
  A call to \<open>_do\<close> reaches its own network call when it passes the identity check
  and does not take the proactive refresh.
\<close>

definition reaches_fetch :: "config \<Rightarrow> options \<Rightarrow> sworld \<Rightarrow> bool" where
  "reaches_fetch cfg opts w =
     (noAuth opts \<or> (truthy (authedId w) \<and> (useRefreshToken opts \<or> \<not> isAccessTokenExpired cfg w)))"

text \<open>A successful renewal response that hands out the access token \<open>t\<close>.\<close>

definition grants :: "response \<Rightarrow> string \<Rightarrow> bool" where
  "grants r t =
     (200 \<le> status r \<and> status r < 300 \<and>
      (case json_body r of
         None \<Rightarrow> False
       | Some j \<Rightarrow> get_prop j ''accessToken'' = Some (JStr t)))"

text \<open>
  What a call to \<open>_do\<close> settles with once its network call has the outcome
  \<open>out\<close>, in every case but the invalid-session error: lines 266 to 303 without
  the refresh branch.
\<close>

definition settle :: "config \<Rightarrow> outcome \<Rightarrow> error + response" where
  "settle cfg out =
     (case out of
        NetFail \<Rightarrow> Inl FetchFailed
      | Resp r \<Rightarrow>
          if 200 \<le> status r \<and> status r < 300 then Inr r
          else if contentType r = Some (JSONTYPE cfg) then
            (case json_body r of
               None \<Rightarrow> Inl SyntaxError
             | Some j \<Rightarrow>
                 (case in_errorCode j of
                    None \<Rightarrow> Inl TypeError
                  | Some present \<Rightarrow>
                      Inl (StitchError (get_prop j ''error'') (get_prop j ''errorCode'')
                             (Some r) (Some j))))
          else Inl (Error (statusText r) (Some r)))"

text \<open>
  The arguments of a primary call that carries no credentials: what
  \<open>makeFetchArgs\<close> gives, with the caller's headers merged over its headers.
\<close>

definition public_args :: "config \<Rightarrow> string \<Rightarrow> options \<Rightarrow> fetch_args" where
  "public_args cfg method opts =
     (let fetchArgs = makeFetchArgs cfg method (body opts)
      in fetchArgs\<lparr>fa_headers :=
           (case headers opts of
              None \<Rightarrow> fa_headers fetchArgs
            | Some hs \<Rightarrow> assign (fa_headers fetchArgs) hs)\<rparr>)"

text \<open>The next outcome of the script is a structured invalid-session error.\<close>

definition invalid_session_next :: "config \<Rightarrow> ('s, 'o) world \<Rightarrow> bool" where
  "invalid_session_next cfg w =
     (case script w of
        (dt, Resp r) # rest \<Rightarrow> invalid_session cfg r
      | _ \<Rightarrow> False)"

text \<open>
  The token a response hands out when it is taken as a renewal response.  Such a
  token is fresh at the time \<open>now\<close> when it can be decoded and is not expired then
  (\<open>isAccessTokenExpired\<close> is false of it); an outcome that hands out no token is
  fresh.
\<close>

definition granted_token :: "response \<Rightarrow> string option" where
  "granted_token r =
     (if 200 \<le> status r \<and> status r < 300 then
        (case json_body r of
           None \<Rightarrow> None
         | Some j \<Rightarrow> (case get_prop j ''accessToken'' of Some (JStr t) \<Rightarrow> Some t | _ \<Rightarrow> None))
      else None)"

definition fresh_token :: "config \<Rightarrow> nat \<Rightarrow> outcome \<Rightarrow> bool" where
  "fresh_token cfg now out =
     (case out of
        NetFail \<Rightarrow> True
      | Resp r \<Rightarrow>
          (case granted_token r of
             None \<Rightarrow> True
           | Some t \<Rightarrow> (case tokenExpiry cfg t of None \<Rightarrow> False | Some e \<Rightarrow> now < e)))"

text \<open>
  The answer to the first refresh call of a dispatch, with the time at which it
  arrives: the head of the script when the call takes the proactive path, the
  second entry of the script when its primary call is answered by an
  invalid-session error and \<open>refreshOnFailure\<close> is true.  \<open>None\<close> when the dispatch
  makes no refresh call or the script has no answer for it.  The first refresh of
  a dispatch is fresh when the token this answer hands out, if any, is fresh on
  arrival, which is when the retried call starts.
\<close>

definition first_refresh :: "config \<Rightarrow> options \<Rightarrow> sworld \<Rightarrow> (nat \<times> outcome) option" where
  "first_refresh cfg opts w =
     (if \<not> noAuth opts \<and> \<not> truthy (authedId w) then None
      else if \<not> noAuth opts \<and> \<not> useRefreshToken opts \<and> isAccessTokenExpired cfg w then
        (case script w of
           [] \<Rightarrow> None
         | (dt, out) # rest \<Rightarrow> Some (clock w + dt, out))
      else if refreshOnFailure opts \<and> invalid_session_next cfg w then
        (case script w of
           (dt1, out1) # (dt2, out2) # rest \<Rightarrow> Some (clock w + dt1 + dt2, out2)
         | _ \<Rightarrow> None)
      else None)"

definition fresh_refresh :: "config \<Rightarrow> options \<Rightarrow> sworld \<Rightarrow> bool" where
  "fresh_refresh cfg opts w =
     (case first_refresh cfg opts w of
        None \<Rightarrow> True
      | Some (now, out) \<Rightarrow> fresh_token cfg now out)"

text \<open>The legacy client's invalid-session signal in a response body.\<close>

definition baas_invalid_session :: "response \<Rightarrow> bool" where
  "baas_invalid_session r =
     (contentType r = Some ''application/json'' \<and>
      (case json_body r of
         None \<Rightarrow> False
       | Some j \<Rightarrow>
           in_errorCode j = Some True \<and>
           loose_eq_InvalidSession (get_prop j ''errorCode'') = Some True))"

text \<open>The request that \<open>_refreshToken\<close> sends.\<close>

definition baas_refresh_args :: "bworld \<Rightarrow> fetch_args" where
  "baas_refresh_args w =
     \<lparr>http_method = ''POST'',
      fa_headers = [(''Accept'', Plain ''application/json''),
                    (''Content-Type'', Plain ''application/json''),
                    (''Authorization'', bearer_item (baas_rt (store w)))],
      fa_body = None\<rparr>"

text \<open>The request that \<open>_doAuthed\<close> sends.\<close>

definition baas_request_args :: "string \<Rightarrow> string option \<Rightarrow> bool option \<Rightarrow> bworld \<Rightarrow> fetch_args" where
  "baas_request_args method body_arg urt_arg w =
     \<lparr>http_method = method,
      fa_headers = [(''Accept'', Plain ''application/json''),
                    (''Content-Type'', Plain ''application/json''),
                    (''Authorization'',
                       if (case urt_arg of None \<Rightarrow> False | Some b \<Rightarrow> b)
                       then bearer_item (baas_rt (store w))
                       else Bearer (get_prop (BaasClient_auth w) ''accessToken''))],
      fa_body = (if truthy body_arg then body_arg else None)\<rparr>"


text \<open>Counting dispatcher entries and refresh calls in a trace.\<close>

fun is_Invoke :: "'o event \<Rightarrow> bool" where
  "is_Invoke (Invoke resource method opts) = True"
| "is_Invoke (Fetch who url args) = False"

fun is_refresh :: "'o event \<Rightarrow> bool" where
  "is_refresh (Fetch who url args) = (who = ByRefresh)"
| "is_refresh (Invoke resource method opts) = False"

definition invocations :: "'o event list \<Rightarrow> nat" where
  "invocations tr = length (filter is_Invoke tr)"

definition refreshes :: "'o event list \<Rightarrow> nat" where
  "refreshes tr = length (filter is_refresh tr)"

subsection \<open>Concrete configurations, sessions and responses\<close>

definition example_config :: config where
  "example_config =
     \<lparr>baseUrl = ''https://s'', clientAppID = Some ''app1'', JSONTYPE = ''application/json'',
      ErrInvalidSession = ''InvalidSession'', ErrUnauthorized = ''Unauthorized'',
      makeFetchArgs = (\<lambda>m b. \<lparr>http_method = m,
                               fa_headers = [(''Accept'', Plain ''application/json''),
                                             (''Content-Type'', Plain ''application/json'')],
                               fa_body = b\<rparr>),
      stringify = (\<lambda>q. concat (map (\<lambda>(k, v). k @ ''='' @ v) q)),
      tokenExpiry = (\<lambda>t. if t = ''A1'' then Some 100 else if t = ''A2'' then Some 900 else None)\<rparr>"

definition ok_response :: "json \<Rightarrow> response" where
  "ok_response j =
     \<lparr>status = 200, statusText = ''OK'', contentType = Some ''application/json'',
      json_body = Some j\<rparr>"

definition error_response :: "nat \<Rightarrow> json \<Rightarrow> response" where
  "error_response code j =
     \<lparr>status = code, statusText = ''Error'', contentType = Some ''application/json'',
      json_body = Some j\<rparr>"

definition html_response :: response where
  "html_response =
     \<lparr>status = 502, statusText = ''Bad Gateway'', contentType = Some ''text/html'',
      json_body = None\<rparr>"

definition invalid_session_body :: json where
  "invalid_session_body =
     JObj [(''error'', JStr ''session expired''), (''errorCode'', JStr ''InvalidSession'')]"

definition other_error_body :: json where
  "other_error_body = JObj [(''error'', JStr ''bad request''), (''errorCode'', JStr ''BadRequest'')]"

definition token_body :: "string \<Rightarrow> json" where
  "token_body t = JObj [(''accessToken'', JStr t)]"

text \<open>
  A signed-in session whose access token \<open>A1\<close> expires at time 100, seen at time
  \<open>now\<close>; the token \<open>A2\<close> is good until 900.
\<close>

definition signed_in :: "nat \<Rightarrow> (nat \<times> outcome) list \<Rightarrow> sworld" where
  "signed_in now sc =
     \<lparr>store = \<lparr>accessToken = Some ''A1'', refreshToken = Some ''R1'', userId = Some ''u1''\<rparr>,
      clock = now, script = sc, trace = []\<rparr>"

definition signed_out :: "(nat \<times> outcome) list \<Rightarrow> sworld" where
  "signed_out sc =
     \<lparr>store = \<lparr>accessToken = None, refreshToken = None, userId = None\<rparr>,
      clock = 0, script = sc, trace = []\<rparr>"

definition baas_signed_in :: "(nat \<times> outcome) list \<Rightarrow> bworld" where
  "baas_signed_in sc =
     \<lparr>store = \<lparr>baas_ua = Some (JObj [(''accessToken'', JStr ''A1''),
                                      (''user'', JObj [(''_id'', JStr ''u1'')])]),
               baas_rt = Some ''R1''\<rparr>,
      clock = 0, script = sc, trace = []\<rparr>"

definition baas_signed_out :: "(nat \<times> outcome) list \<Rightarrow> bworld" where
  "baas_signed_out sc =
     \<lparr>store = \<lparr>baas_ua = None, baas_rt = None\<rparr>, clock = 0, script = sc, trace = []\<rparr>"

definition no_provider :: "string \<Rightarrow> unit \<Rightarrow> sworld \<Rightarrow> (error + unit) \<times> sworld" where
  "no_provider providerType authOptions w = (Inl TypeError, w)"

section \<open>Properties\<close>

subsection \<open>The network, the refresh and the paths of the dispatcher\<close>

lemma fetch_answered:
  "script w = (dt, out) # rest \<Longrightarrow> fetch who url args w = (out, answered who url args dt rest w)"
  by (simp add: fetch_def)

lemma fetch_exhausted:
  "script w = [] \<Longrightarrow> fetch who url args w = (NetFail, w\<lparr>trace := trace w @ [Fetch who url args]\<rparr>)"
  by (simp add: fetch_def)

lemma fetch_trace: "trace (snd (fetch who url args w)) = trace w @ [Fetch who url args]"
  by (simp add: fetch_def answered_def split: list.splits)

lemma fetch_store: "store (snd (fetch who url args w)) = store w"
  by (simp add: fetch_def answered_def split: list.splits)

lemma invoked_simps [simp]:
  "store (invoked resource method opts w) = store w"
  "clock (invoked resource method opts w) = clock w"
  "script (invoked resource method opts w) = script w"
  "trace (invoked resource method opts w) = trace w @ [Invoke resource method opts]"
  by (simp_all add: invoked_def)

lemma answered_simps [simp]:
  "store (answered who url args dt rest w) = store w"
  "clock (answered who url args dt rest w) = clock w + dt"
  "script (answered who url args dt rest w) = rest"
  "trace (answered who url args dt rest w) = trace w @ [Fetch who url args]"
  by (simp_all add: answered_def)

lemma store_reads_invoked [simp]:
  "authedId (invoked resource method opts w) = authedId w"
  "getAccessToken (invoked resource method opts w) = getAccessToken w"
  "getRefreshToken (invoked resource method opts w) = getRefreshToken w"
  "isAccessTokenExpired cfg (invoked resource method opts w) = isAccessTokenExpired cfg w"
  "request_args cfg m o2 (invoked resource method opts w) = request_args cfg m o2 w"
  "refresh_args cfg (invoked resource method opts w) = refresh_args cfg w"
  by (simp_all add: authedId_def getAccessToken_def getRefreshToken_def isAccessTokenExpired_def
        request_args_def refresh_args_def Let_def split: option.splits)

lemma refresh_grants:
  assumes "script w = (dt, Resp r) # rest" and "grants r t"
  shows "Auth_refreshToken cfg w =
           (Inr (), (answered ByRefresh (authUrl cfg @ ''/session'') (refresh_args cfg w) dt rest w)
                      \<lparr>store := (store w)\<lparr>accessToken := Some t\<rparr>\<rparr>)"
  using assms
  by (auto simp: Auth_refreshToken_def fetch_answered grants_def split: option.splits)

lemma refresh_success:
  assumes "Auth_refreshToken cfg w = (Inr u, w1)"
  shows "\<exists>dt r rest t. script w = (dt, Resp r) # rest \<and> grants r t \<and>
           w1 = (answered ByRefresh (authUrl cfg @ ''/session'') (refresh_args cfg w) dt rest w)
                      \<lparr>store := (store w)\<lparr>accessToken := Some t\<rparr>\<rparr>"
  using assms
  by (auto simp: Auth_refreshToken_def fetch_def grants_def
           split: list.splits outcome.splits if_splits option.splits json.splits)

lemma refresh_trace:
  "trace (snd (Auth_refreshToken cfg w)) =
     trace w @ [Fetch ByRefresh (authUrl cfg @ ''/session'') (refresh_args cfg w)]"
  by (auto simp: Auth_refreshToken_def fetch_def clear_def answered_def
           split: list.splits outcome.splits if_splits option.splits json.splits)

lemma do_proactive:
  assumes "\<not> noAuth opts" "truthy (authedId w)" "\<not> useRefreshToken opts" "isAccessTokenExpired cfg w"
  shows "StitchClient_do cfg resource method opts w =
     (case Auth_refreshToken cfg (invoked resource method opts w) of
        (Inl e, w1) \<Rightarrow> (Inl e, w1)
      | (Inr u, w1) \<Rightarrow> StitchClient_do cfg resource method (opts\<lparr>refreshOnFailure := False\<rparr>) w1)"
  using assms by (subst StitchClient_do.simps) simp

lemma do_ok:
  assumes "reaches_fetch cfg opts w" "script w = (dt, Resp r) # rest" "200 \<le> status r" "status r < 300"
  shows "StitchClient_do cfg resource method opts w =
     (Inr r, answered ByDispatch (request_url cfg resource opts) (request_args cfg method opts w) dt rest
               (invoked resource method opts w))"
  using assms by (subst StitchClient_do.simps) (auto simp: reaches_fetch_def fetch_answered)

lemma do_invalid_terminal:
  assumes "reaches_fetch cfg opts w" "script w = (dt, Resp r) # rest" "invalid_session cfg r"
    "\<not> refreshOnFailure opts" "json_body r = Some j"
  shows "StitchClient_do cfg resource method opts w =
     (Inl (StitchError (get_prop j ''error'') (get_prop j ''errorCode'') (Some r) (Some j)),
      clear (answered ByDispatch (request_url cfg resource opts) (request_args cfg method opts w) dt rest
               (invoked resource method opts w)))"
  using assms by (subst StitchClient_do.simps) (auto simp: reaches_fetch_def fetch_answered invalid_session_def)

lemma do_invalid_retry:
  assumes "reaches_fetch cfg opts w" "script w = (dt, Resp r) # rest" "invalid_session cfg r"
    "refreshOnFailure opts"
  shows "StitchClient_do cfg resource method opts w =
     (case Auth_refreshToken cfg
             (answered ByDispatch (request_url cfg resource opts) (request_args cfg method opts w) dt rest
               (invoked resource method opts w)) of
        (Inl e, w2) \<Rightarrow> (Inl e, w2)
      | (Inr u, w2) \<Rightarrow> StitchClient_do cfg resource method (opts\<lparr>refreshOnFailure := False\<rparr>) w2)"
  using assms by (subst StitchClient_do.simps) (auto simp: reaches_fetch_def fetch_answered invalid_session_def split: option.splits)

lemma do_unauth:
  assumes "\<not> noAuth opts" "\<not> truthy (authedId w)"
  shows "StitchClient_do cfg resource method opts w =
     (Inl (StitchError (Some (JStr ''Must auth first'')) (Some (JStr (ErrUnauthorized cfg)))
             None None),
      invoked resource method opts w)"
  using assms by (subst StitchClient_do.simps) simp

lemma do_settles:
  assumes "reaches_fetch cfg opts w" "\<not> invalid_session_next cfg w"
  shows "StitchClient_do cfg resource method opts w =
     (settle cfg (fst (fetch ByDispatch (request_url cfg resource opts)
                         (request_args cfg method opts w) (invoked resource method opts w))),
      snd (fetch ByDispatch (request_url cfg resource opts)
             (request_args cfg method opts w) (invoked resource method opts w)))"
  using assms
  by (subst StitchClient_do.simps)
     (auto simp: reaches_fetch_def invalid_session_next_def invalid_session_def settle_def
                 fetch_def
           split: list.splits outcome.splits option.splits)

lemma invalid_session_nextD:
  assumes "invalid_session_next cfg w"
  shows "\<exists>dt r rest j. script w = (dt, Resp r) # rest \<and> invalid_session cfg r \<and>
           json_body r = Some j"
proof (cases "script w")
  case Nil
  with assms show ?thesis by (simp add: invalid_session_next_def)
next
  case (Cons x rest)
  obtain dt out where x: "x = (dt, out)" by (cases x)
  show ?thesis
  proof (cases out)
    case NetFail
    with assms Cons x show ?thesis by (simp add: invalid_session_next_def)
  next
    case (Resp r)
    with assms Cons x have i: "invalid_session cfg r" by (simp add: invalid_session_next_def)
    then obtain j where "json_body r = Some j"
      by (cases "json_body r") (simp_all add: invalid_session_def)
    with i Cons x Resp show ?thesis by simp
  qed
qed

lemma do_terminal_trace:
  assumes "reaches_fetch cfg opts w" "\<not> refreshOnFailure opts"
  shows "trace (snd (StitchClient_do cfg resource method opts w)) =
     trace w @ [Invoke resource method opts,
                Fetch ByDispatch (request_url cfg resource opts) (request_args cfg method opts w)]"
proof (cases "invalid_session_next cfg w")
  case True
  then obtain dt r rest j where "script w = (dt, Resp r) # rest" "invalid_session cfg r"
    "json_body r = Some j"
    by (blast dest: invalid_session_nextD)
  with assms show ?thesis
    by (simp add: do_invalid_terminal clear_def)
next
  case False
  with assms show ?thesis
    by (simp add: do_settles fetch_trace)
qed

lemma refresh_authedId:
  "Auth_refreshToken cfg w = (Inr u, w1) \<Longrightarrow> authedId w1 = authedId w"
  by (auto dest!: refresh_success simp: authedId_def)

lemma request_args_store:
  "store w = store w' \<Longrightarrow> request_args cfg method opts w = request_args cfg method opts w'"
  by (simp add: request_args_def getAccessToken_def getRefreshToken_def Let_def)

text \<open>Unfolding the models on concrete inputs.\<close>

lemmas stitch_eval = StitchClient_do.simps Auth_refreshToken_def refresh_args_def request_args_def
  request_url_def rootURLsByAPIVersion_def authUrl_def assign_def fetch_def answered_def invoked_def
  clear_def authedId_def getAccessToken_def getRefreshToken_def isAccessTokenExpired_def
  invalid_session_def refresh_error_def example_config_def default_options_def signed_in_def
  signed_out_def ok_response_def error_response_def html_response_def token_body_def
  invalid_session_body_def other_error_body_def

lemmas baas_eval = new_Error_def BaasClient_doAuthed.simps BaasClient_refreshToken_def
  BaasClient_setAccessToken_def BaasClient_clearAuth_def BaasClient_auth_def baas_signed_in_def
  baas_signed_out_def ok_response_def error_response_def html_response_def token_body_def
  invalid_session_body_def other_error_body_def bearer_item_def fetch_def answered_def invoked_def

lemma invocations_simps [simp]:
  "invocations [] = 0"
  "invocations (Invoke resource method opts # tr) = Suc (invocations tr)"
  "invocations (Fetch who url args # tr) = invocations tr"
  by (simp_all add: invocations_def)

lemma refreshes_simps [simp]:
  "refreshes [] = 0"
  "refreshes (Invoke resource method opts # tr) = refreshes tr"
  "refreshes (Fetch ByRefresh url args # tr) = Suc (refreshes tr)"
  "refreshes (Fetch ByDispatch url args # tr) = refreshes tr"
  by (simp_all add: refreshes_def)

lemma baas_reads_invoked [simp]:
  "BaasClient_auth (invoked resource method a w) = BaasClient_auth w"
  "baas_request_args m b u (invoked resource method a w) = baas_request_args m b u w"
  "baas_refresh_args (invoked resource method a w) = baas_refresh_args w"
  by (simp_all add: BaasClient_auth_def baas_request_args_def baas_refresh_args_def)







lemma refresh_script_shorter:
  "Auth_refreshToken cfg w = (Inr u, w1) \<Longrightarrow> length (script w1) < length (script w)"
  by (auto dest!: refresh_success)

lemma do_invokes:
  "\<exists>tr. trace (snd (StitchClient_do cfg resource method opts w)) =
          trace w @ Invoke resource method opts # tr \<and>
        (\<forall>ev \<in> set tr. is_Invoke ev \<longrightarrow>
           ev = Invoke resource method (opts\<lparr>refreshOnFailure := False\<rparr>))"
proof (induction "length (script w)" arbitrary: opts w rule: less_induct)
  case less
  let ?o = "opts\<lparr>refreshOnFailure := False\<rparr>"
  let ?w0 = "invoked resource method opts w"
  let ?url = "request_url cfg resource opts"
  let ?args = "request_args cfg method opts w"
  let ?do = "StitchClient_do cfg resource method opts w"
  have IH: "\<exists>tr. trace (snd (StitchClient_do cfg resource method ?o w')) =
                    trace w' @ Invoke resource method ?o # tr \<and>
                 (\<forall>ev \<in> set tr. is_Invoke ev \<longrightarrow> ev = Invoke resource method ?o)"
    if "length (script w') < length (script w)" for w'
    using less [OF that, of ?o] by simp
  consider
      (unauth) "\<not> noAuth opts" "\<not> truthy (authedId w)"
    | (proactive) "\<not> noAuth opts" "truthy (authedId w)" "\<not> useRefreshToken opts"
        "isAccessTokenExpired cfg w"
    | (send) "reaches_fetch cfg opts w"
    by (auto simp: reaches_fetch_def)
  then show ?case
  proof cases
    case unauth
    then show ?thesis by (simp add: do_unauth)
  next
    case proactive
    obtain x w1 where r: "Auth_refreshToken cfg ?w0 = (x, w1)" by (cases "Auth_refreshToken cfg ?w0")
    from refresh_trace [of cfg ?w0] r
    have t1: "trace w1 = trace w @ [Invoke resource method opts,
                Fetch ByRefresh (authUrl cfg @ ''/session'') (refresh_args cfg w)]"
      by simp
    show ?thesis
    proof (cases x)
      case (Inl e)
      with proactive r t1 show ?thesis by (simp add: do_proactive)
    next
      case (Inr u)
      with r have ok: "Auth_refreshToken cfg ?w0 = (Inr u, w1)" by simp
      from refresh_script_shorter [OF ok] have "length (script w1) < length (script w)" by simp
      from IH [OF this] obtain tr where
        "trace (snd (StitchClient_do cfg resource method ?o w1)) =
           trace w1 @ Invoke resource method ?o # tr"
        "\<forall>ev \<in> set tr. is_Invoke ev \<longrightarrow> ev = Invoke resource method ?o"
        by blast
      with proactive ok t1 show ?thesis by (simp add: do_proactive)
    qed
  next
    case send
    show ?thesis
    proof (cases "invalid_session_next cfg w \<and> refreshOnFailure opts")
      case False
      then consider "\<not> invalid_session_next cfg w" | "\<not> refreshOnFailure opts" by blast
      then show ?thesis
      proof cases
        case 1
        with send show ?thesis by (simp add: do_settles fetch_trace)
      next
        case 2
        with send show ?thesis by (simp add: do_terminal_trace)
      qed
    next
      case True
      then obtain dt r rest j where sc: "script w = (dt, Resp r) # rest"
        and inv: "invalid_session cfg r"
        by (blast dest: invalid_session_nextD)
      let ?w1 = "answered ByDispatch ?url ?args dt rest ?w0"
      obtain x w2 where r: "Auth_refreshToken cfg ?w1 = (x, w2)" by (cases "Auth_refreshToken cfg ?w1")
      from refresh_trace [of cfg ?w1] r
      have t2: "trace w2 = trace w @ [Invoke resource method opts, Fetch ByDispatch ?url ?args,
                  Fetch ByRefresh (authUrl cfg @ ''/session'') (refresh_args cfg ?w1)]"
        by simp
      from send sc inv True
      have unfold: "?do = (case Auth_refreshToken cfg ?w1 of
                             (Inl e, w2) \<Rightarrow> (Inl e, w2)
                           | (Inr u, w2) \<Rightarrow> StitchClient_do cfg resource method ?o w2)"
        by (simp add: do_invalid_retry)
      show ?thesis
      proof (cases x)
        case (Inl e)
        with unfold r t2 show ?thesis by simp
      next
        case (Inr u)
        with r have ok: "Auth_refreshToken cfg ?w1 = (Inr u, w2)" by simp
        from refresh_script_shorter [OF ok] sc
        have "length (script w2) < length (script w)" by simp
        from IH [OF this] obtain tr where
          "trace (snd (StitchClient_do cfg resource method ?o w2)) =
             trace w2 @ Invoke resource method ?o # tr"
          "\<forall>ev \<in> set tr. is_Invoke ev \<longrightarrow> ev = Invoke resource method ?o"
          by blast
        with unfold ok t2 show ?thesis by simp
      qed
    qed
  qed
qed

lemma map_of_assign: "map_of (assign target source) = map_of target ++ map_of (rev source)"
  unfolding assign_def
  by (induction source arbitrary: target) (auto simp: update_conv' map_add_def fun_eq_iff split: option.splits)


lemma fetch_store_update:
  "fetch who url args (w\<lparr>store := s\<rparr>) =
     (fst (fetch who url args w), (snd (fetch who url args w))\<lparr>store := s\<rparr>)"
  by (simp add: fetch_def answered_def split: list.splits)

lemma invoked_store_update:
  "invoked resource method opts (w\<lparr>store := s\<rparr>) = (invoked resource method opts w)\<lparr>store := s\<rparr>"
  by (simp add: invoked_def)

lemma request_args_noAuth:
  "noAuth opts \<Longrightarrow> request_args cfg method opts w = public_args cfg method opts"
  by (simp add: request_args_def public_args_def Let_def)

lemma do_structured_error:
  assumes "reaches_fetch cfg opts w" "script w = (dt, Resp r) # rest"
    and "\<not> (200 \<le> status r \<and> status r < 300)" "contentType r = Some (JSONTYPE cfg)"
    and "json_body r = Some j" "in_errorCode j = Some present" "\<not> invalid_session cfg r"
  shows "StitchClient_do cfg resource method opts w =
     (Inl (StitchError (get_prop j ''error'') (get_prop j ''errorCode'') (Some r) (Some j)),
      answered ByDispatch (request_url cfg resource opts) (request_args cfg method opts w) dt rest
        (invoked resource method opts w))"
proof -
  from assms(2,7) have "\<not> invalid_session_next cfg w" by (simp add: invalid_session_next_def)
  with assms show ?thesis by (simp add: do_settles fetch_answered settle_def)
qed

lemma do_plain_error:
  assumes "reaches_fetch cfg opts w" "script w = (dt, Resp r) # rest"
    and "\<not> (200 \<le> status r \<and> status r < 300)" "contentType r \<noteq> Some (JSONTYPE cfg)"
  shows "StitchClient_do cfg resource method opts w =
     (Inl (Error (statusText r) (Some r)),
      answered ByDispatch (request_url cfg resource opts) (request_args cfg method opts w) dt rest
        (invoked resource method opts w))"
proof -
  from assms(2,4) have "\<not> invalid_session_next cfg w"
    by (simp add: invalid_session_next_def invalid_session_def)
  with assms show ?thesis by (simp add: do_settles fetch_answered settle_def)
qed

text \<open>The refresh calls of a dispatch whose first refresh is fresh, and of one whose first refresh is not.\<close>

lemma granted_token_grants: "(granted_token r = Some t) = grants r t"
  by (auto simp: grants_def granted_token_def split: option.splits json.splits)

lemma refreshes_append [simp]: "refreshes (xs @ ys) = refreshes xs + refreshes ys"
  by (simp add: refreshes_def)

lemma do_proactive_trace:
  assumes "\<not> noAuth opts" "truthy (authedId w)" "\<not> useRefreshToken opts" "isAccessTokenExpired cfg w"
  shows "\<exists>tr. trace (snd (StitchClient_do cfg resource method opts w)) =
           trace w @ Invoke resource method opts #
             Fetch ByRefresh (authUrl cfg @ ''/session'') (refresh_args cfg w) # tr"
proof -
  let ?o = "opts\<lparr>refreshOnFailure := False\<rparr>"
  let ?w0 = "invoked resource method opts w"
  obtain x w1 where r: "Auth_refreshToken cfg ?w0 = (x, w1)" by (cases "Auth_refreshToken cfg ?w0")
  from refresh_trace [of cfg ?w0] r
  have t1: "trace w1 = trace w @ [Invoke resource method opts,
              Fetch ByRefresh (authUrl cfg @ ''/session'') (refresh_args cfg w)]"
    by simp
  show ?thesis
  proof (cases x)
    case (Inl e)
    with assms r t1 show ?thesis by (simp add: do_proactive)
  next
    case (Inr u)
    from do_invokes [of cfg resource "method" ?o w1] obtain tr where
      "trace (snd (StitchClient_do cfg resource method ?o w1)) =
         trace w1 @ Invoke resource method ?o # tr"
      by blast
    with assms r Inr t1 show ?thesis by (simp add: do_proactive)
  qed
qed

lemma fresh_refresh_proactive:
  assumes "\<not> noAuth opts" "truthy (authedId w)" "\<not> useRefreshToken opts" "isAccessTokenExpired cfg w"
    and "script w = (dt, Resp r) # rest" "grants r t"
  shows "fresh_refresh cfg opts w = (\<exists>e. tokenExpiry cfg t = Some e \<and> clock w + dt < e)"
  using assms
  by (auto simp: fresh_refresh_def first_refresh_def fresh_token_def granted_token_grants [symmetric]
           split: option.splits)

lemma fresh_refresh_reactive:
  assumes "reaches_fetch cfg opts w" "refreshOnFailure opts"
    and "script w = (dt1, Resp r1) # (dt2, Resp r2) # rest" "invalid_session cfg r1" "grants r2 t"
  shows "fresh_refresh cfg opts w = (\<exists>e. tokenExpiry cfg t = Some e \<and> clock w + dt1 + dt2 < e)"
  using assms
  by (auto simp: fresh_refresh_def first_refresh_def fresh_token_def granted_token_grants [symmetric]
        reaches_fetch_def invalid_session_next_def split: option.splits)


lemma budget_kept:
  assumes budget: "noAuth opts \<or> useRefreshToken opts \<or> fresh_refresh cfg opts w"
  shows "\<exists>tr. trace (snd (StitchClient_do cfg resource method opts w)) = trace w @ tr \<and>
           invocations tr \<le> 2 \<and> refreshes tr \<le> 1"
proof -
  let ?o = "opts\<lparr>refreshOnFailure := False\<rparr>"
  let ?w0 = "invoked resource method opts w"
  let ?url = "request_url cfg resource opts"
  let ?args = "request_args cfg method opts w"
  let ?do = "StitchClient_do cfg resource method opts w"
  consider
      (unauth) "\<not> noAuth opts" "\<not> truthy (authedId w)"
    | (proactive) "\<not> noAuth opts" "truthy (authedId w)" "\<not> useRefreshToken opts"
        "isAccessTokenExpired cfg w"
    | (send) "reaches_fetch cfg opts w"
    by (auto simp: reaches_fetch_def)
  then show ?thesis
  proof cases
    case unauth
    then show ?thesis by (simp add: do_unauth)
  next
    case proactive
    with budget have fresh: "fresh_refresh cfg opts w" by simp
    obtain x w1 where r: "Auth_refreshToken cfg ?w0 = (x, w1)" by (cases "Auth_refreshToken cfg ?w0")
    from refresh_trace [of cfg ?w0] r
    have t1: "trace w1 = trace w @ [Invoke resource method opts,
                Fetch ByRefresh (authUrl cfg @ ''/session'') (refresh_args cfg w)]"
      by simp
    show ?thesis
    proof (cases x)
      case (Inl e)
      with proactive r t1 show ?thesis by (simp add: do_proactive)
    next
      case (Inr u)
      with r have ok: "Auth_refreshToken cfg ?w0 = (Inr u, w1)" by simp
      from refresh_success [OF ok] obtain dt r rest t where
        sc: "script w = (dt, Resp r) # rest" and g: "grants r t" and
        w1: "w1 = (answered ByRefresh (authUrl cfg @ ''/session'') (refresh_args cfg ?w0) dt rest ?w0)
                    \<lparr>store := (store ?w0)\<lparr>accessToken := Some t\<rparr>\<rparr>"
        by auto
      from fresh fresh_refresh_proactive [OF proactive sc g]
      obtain e where "tokenExpiry cfg t = Some e" "clock w + dt < e" by blast
      with w1 have "\<not> isAccessTokenExpired cfg w1"
        by (simp add: isAccessTokenExpired_def getAccessToken_def)
      with refresh_authedId [OF ok] proactive
      have "reaches_fetch cfg ?o w1" by (simp add: reaches_fetch_def)
      from do_terminal_trace [OF this, of resource "method"] proactive ok t1
      show ?thesis by (simp add: do_proactive)
    qed
  next
    case send
    show ?thesis
    proof (cases "invalid_session_next cfg w \<and> refreshOnFailure opts")
      case False
      then consider "\<not> invalid_session_next cfg w" | "\<not> refreshOnFailure opts" by blast
      then show ?thesis
      proof cases
        case 1
        with send show ?thesis by (simp add: do_settles fetch_trace)
      next
        case 2
        with send show ?thesis by (simp add: do_terminal_trace)
      qed
    next
      case True
      then obtain dt r rest j where sc: "script w = (dt, Resp r) # rest"
        and inv: "invalid_session cfg r"
        by (blast dest: invalid_session_nextD)
      let ?w1 = "answered ByDispatch ?url ?args dt rest ?w0"
      obtain x w2 where r: "Auth_refreshToken cfg ?w1 = (x, w2)" by (cases "Auth_refreshToken cfg ?w1")
      from refresh_trace [of cfg ?w1] r
      have t2: "trace w2 = trace w @ [Invoke resource method opts, Fetch ByDispatch ?url ?args,
                  Fetch ByRefresh (authUrl cfg @ ''/session'') (refresh_args cfg ?w1)]"
        by simp
      from send sc inv True
      have unfold: "?do = (case Auth_refreshToken cfg ?w1 of
                             (Inl e, w2) \<Rightarrow> (Inl e, w2)
                           | (Inr u, w2) \<Rightarrow> StitchClient_do cfg resource method ?o w2)"
        by (simp add: do_invalid_retry)
      show ?thesis
      proof (cases x)
        case (Inl e)
        with unfold r t2 show ?thesis by simp
      next
        case (Inr u)
        with r have ok: "Auth_refreshToken cfg ?w1 = (Inr u, w2)" by simp
        from refresh_success [OF ok] obtain dt2 r2 rest2 t where
          sc2: "rest = (dt2, Resp r2) # rest2" and g: "grants r2 t" and
          w2: "w2 = (answered ByRefresh (authUrl cfg @ ''/session'') (refresh_args cfg ?w1) dt2 rest2 ?w1)
                      \<lparr>store := (store ?w1)\<lparr>accessToken := Some t\<rparr>\<rparr>"
          by auto
        have "reaches_fetch cfg ?o w2"
        proof (cases "noAuth opts \<or> useRefreshToken opts")
          case True
          with send refresh_authedId [OF ok] show ?thesis
            by (auto simp: reaches_fetch_def authedId_def)
        next
          case False
          with budget have "fresh_refresh cfg opts w" by simp
          with fresh_refresh_reactive [OF send _ _ inv g, of dt dt2 rest2] True sc sc2
          obtain e where "tokenExpiry cfg t = Some e" "clock w + dt + dt2 < e" by blast
          with w2 have "\<not> isAccessTokenExpired cfg w2"
            by (simp add: isAccessTokenExpired_def getAccessToken_def)
          with refresh_authedId [OF ok] send False
          show ?thesis by (simp add: reaches_fetch_def authedId_def)
        qed
        from do_terminal_trace [OF this, of resource "method"] unfold ok t2
        show ?thesis by simp
      qed
    qed
  qed
qed

lemma budget_exceeded:
  assumes na: "\<not> noAuth opts" and nu: "\<not> useRefreshToken opts"
    and stale: "\<not> fresh_refresh cfg opts w"
  shows "\<exists>tr. trace (snd (StitchClient_do cfg resource method opts w)) = trace w @ tr \<and>
           2 \<le> refreshes tr"
proof -
  let ?o = "opts\<lparr>refreshOnFailure := False\<rparr>"
  let ?w0 = "invoked resource method opts w"
  let ?url = "request_url cfg resource opts"
  let ?args = "request_args cfg method opts w"
  from stale obtain now out where fr: "first_refresh cfg opts w = Some (now, out)"
    and nf: "\<not> fresh_token cfg now out"
    by (auto simp: fresh_refresh_def split: option.splits)
  from nf obtain r t where out: "out = Resp r" and g: "grants r t"
    and old: "\<forall>e. tokenExpiry cfg t = Some e \<longrightarrow> e \<le> now"
    by (auto simp: fresh_token_def granted_token_grants [symmetric] not_less
             split: outcome.splits option.splits)
  from fr na have authed: "truthy (authedId w)"
    by (auto simp: first_refresh_def split: if_splits)
  have again: "\<exists>tr. trace (snd (StitchClient_do cfg resource method ?o w2)) =
                 trace w2 @ Invoke resource method ?o #
                   Fetch ByRefresh (authUrl cfg @ ''/session'') (refresh_args cfg w2) # tr"
    if "authedId w2 = authedId w" "store w2 = (store w')\<lparr>accessToken := Some t\<rparr>" "clock w2 = now"
    for w2 w'
  proof -
    from that old have "isAccessTokenExpired cfg w2"
      by (auto simp: isAccessTokenExpired_def getAccessToken_def split: option.splits)
    with na nu authed that(1) show ?thesis
      by (intro do_proactive_trace) simp_all
  qed
  show ?thesis
  proof (cases "isAccessTokenExpired cfg w")
    case True
    with fr na nu authed out obtain dt rest where sc: "script w = (dt, Resp r) # rest"
      and now: "now = clock w + dt"
      by (auto simp: first_refresh_def split: list.splits)
    let ?w2 = "(answered ByRefresh (authUrl cfg @ ''/session'') (refresh_args cfg ?w0) dt rest ?w0)
                 \<lparr>store := (store ?w0)\<lparr>accessToken := Some t\<rparr>\<rparr>"
    have ref: "Auth_refreshToken cfg ?w0 = (Inr (), ?w2)"
      using sc g by (simp add: refresh_grants)
    have outer: "StitchClient_do cfg resource method opts w =
                   StitchClient_do cfg resource method ?o ?w2"
      using na nu authed True by (simp add: do_proactive ref)
    from again [of ?w2 ?w0] now obtain tr where
      "trace (snd (StitchClient_do cfg resource method ?o ?w2)) =
         trace ?w2 @ Invoke resource method ?o #
           Fetch ByRefresh (authUrl cfg @ ''/session'') (refresh_args cfg ?w2) # tr"
      by (auto simp: authedId_def)
    with outer show ?thesis by (simp add: refresh_args_def)
  next
    case False
    with na nu authed have send: "reaches_fetch cfg opts w" by (simp add: reaches_fetch_def)
    from fr na nu authed False have rof: "refreshOnFailure opts"
      and inv: "invalid_session_next cfg w"
      by (auto simp: first_refresh_def split: if_splits)
    from inv obtain dt1 r1 rest1 where sc1: "script w = (dt1, Resp r1) # rest1"
      and i1: "invalid_session cfg r1"
      by (blast dest: invalid_session_nextD)
    from fr na nu authed False rof inv sc1 out obtain dt2 rest where
      sc: "rest1 = (dt2, Resp r) # rest" and now: "now = clock w + dt1 + dt2"
      by (auto simp: first_refresh_def split: list.splits)
    let ?w1 = "answered ByDispatch ?url ?args dt1 rest1 ?w0"
    let ?w2 = "(answered ByRefresh (authUrl cfg @ ''/session'') (refresh_args cfg ?w1) dt2 rest ?w1)
                 \<lparr>store := (store ?w1)\<lparr>accessToken := Some t\<rparr>\<rparr>"
    have ref: "Auth_refreshToken cfg ?w1 = (Inr (), ?w2)"
      using sc g by (simp add: refresh_grants)
    have outer: "StitchClient_do cfg resource method opts w =
                   StitchClient_do cfg resource method ?o ?w2"
      using send sc1 i1 rof by (simp add: do_invalid_retry ref)
    from again [of ?w2 ?w1] now obtain tr where
      "trace (snd (StitchClient_do cfg resource method ?o ?w2)) =
         trace ?w2 @ Invoke resource method ?o #
           Fetch ByRefresh (authUrl cfg @ ''/session'') (refresh_args cfg ?w2) # tr"
      by (auto simp: authedId_def)
    with outer show ?thesis by (simp add: refresh_args_def)
  qed
qed


lemma baas_refresh_frame:
  assumes ok: "BaasClient_refreshToken appUrl w = (Inr u, w1)"
  shows "baas_rt (store w1) = baas_rt (store w) \<and>
      (\<forall>k. k \<noteq> ''accessToken'' \<longrightarrow>
           get_prop (BaasClient_auth w1) k = get_prop (BaasClient_auth w) k) \<and>
      (BaasClient_auth w1 = JNull) = (BaasClient_auth w = JNull)"
proof -
  let ?w0 = "snd (fetch ByRefresh (appUrl @ ''/auth/newAccessToken'') (baas_refresh_args w) w)"
  have st: "store ?w0 = store w" by (rule fetch_store)
  from ok obtain token where set: "BaasClient_setAccessToken token ?w0 = (Inr u, w1)"
    by (auto simp: BaasClient_refreshToken_def baas_refresh_args_def Let_def
             split: prod.splits outcome.splits if_splits option.splits)
  from set st show ?thesis
    by (auto simp: BaasClient_setAccessToken_def BaasClient_auth_def update_conv' delete_conv'
             split: option.splits json.splits)
qed

lemma baas_refresh_invalid:
  assumes "script w = (dt, Resp r) # rest" "status r \<noteq> 200" "baas_invalid_session r"
    and "json_body r = Some j"
  shows "BaasClient_refreshToken appUrl w =
     (Inl (new_Error j),
      BaasClient_clearAuth
        (answered ByRefresh (appUrl @ ''/auth/newAccessToken'') (baas_refresh_args w) dt rest w))"
  using assms
  by (simp add: BaasClient_refreshToken_def fetch_answered baas_invalid_session_def
        baas_refresh_args_def)

lemma baas_refresh_structured:
  assumes "script w = (dt, Resp r) # rest" "status r \<noteq> 200"
    and "contentType r = Some ''application/json''" "json_body r = Some j"
    and "in_errorCode j = Some present"
    and "loose_eq_InvalidSession (get_prop j ''errorCode'') = Some invalid"
  shows "fst (BaasClient_refreshToken appUrl w) = Inl (new_Error j)"
  using assms
  by (simp add: BaasClient_refreshToken_def fetch_answered Let_def)

lemma baas_refresh_other:
  assumes "BaasClient_refreshToken appUrl w = (Inl e, w2)"
    and "\<not> (\<exists>dt r rest. script w = (dt, Resp r) # rest \<and> status r \<noteq> 200 \<and> baas_invalid_session r)"
  shows "store w2 = store w"
  using assms
  by (auto simp: BaasClient_refreshToken_def fetch_def baas_invalid_session_def Let_def
        BaasClient_setAccessToken_def answered_def
        split: list.splits outcome.splits if_splits option.splits json.splits)






subsection \<open>Calls without an identity\<close>

text \<open>
  C4.  A dispatch call that requires authentication, made while no authenticated
  identity exists, fails at once with the "Must auth first" error: the world it
  leaves is the world it found plus the ghost entry event, so no network call
  (refresh or primary) was made and the session store and the script are
  untouched.  This holds for \<open>StitchClient._do\<close> with \<open>noAuth\<close> false and no truthy
  \<open>authedId()\<close>, and for \<open>BaasClient._doAuthed\<close> when \<open>auth()\<close> is \<open>null\<close>.
\<close>

theorem unauthenticated_fails_locally:
  "(\<not> noAuth opts \<and> \<not> truthy (authedId w) \<longrightarrow>
      StitchClient_do cfg resource method opts w =
        (Inl (StitchError (Some (JStr ''Must auth first'')) (Some (JStr (ErrUnauthorized cfg)))
                None None),
         invoked resource method opts w)) \<and>
   (BaasClient_auth b = JNull \<longrightarrow>
      BaasClient_doAuthed appUrl resource method body_arg rof_arg urt_arg b =
        (Inl (Error ''Must auth first'' None),
         invoked resource method (body_arg, rof_arg, urt_arg) b))"
proof (intro conjI impI)
  assume "\<not> noAuth opts \<and> \<not> truthy (authedId w)"
  then show "StitchClient_do cfg resource method opts w =
        (Inl (StitchError (Some (JStr ''Must auth first'')) (Some (JStr (ErrUnauthorized cfg)))
                None None),
         invoked resource method opts w)"
    by (subst StitchClient_do.simps) (simp add: invoked_def authedId_def)
next
  assume "BaasClient_auth b = JNull"
  then show "BaasClient_doAuthed appUrl resource method body_arg rof_arg urt_arg b =
        (Inl (Error ''Must auth first'' None),
         invoked resource method (body_arg, rof_arg, urt_arg) b)"
    by (subst BaasClient_doAuthed.simps) (simp add: invoked_def BaasClient_auth_def)
qed

theorem unauthenticated_fails_locally_witness:
  "\<not> noAuth default_options \<and> \<not> truthy (authedId (signed_out [(1, Resp (ok_response JNull))])) \<and>
   StitchClient_do example_config ''/functions/call'' ''POST'' default_options
       (signed_out [(1, Resp (ok_response JNull))]) =
     (Inl (StitchError (Some (JStr ''Must auth first'')) (Some (JStr ''Unauthorized'')) None None),
      \<lparr>store = \<lparr>accessToken = None, refreshToken = None, userId = None\<rparr>, clock = 0,
       script = [(1, Resp (ok_response JNull))],
       trace = [Invoke ''/functions/call'' ''POST'' default_options]\<rparr>) \<and>
   BaasClient_auth (baas_signed_out [(1, Resp (ok_response JNull))]) = JNull \<and>
   BaasClient_doAuthed ''https://b'' ''/functions/call'' ''POST'' (Some ''[]'') None None
       (baas_signed_out [(1, Resp (ok_response JNull))]) =
     (Inl (Error ''Must auth first'' None),
      \<lparr>store = \<lparr>baas_ua = None, baas_rt = None\<rparr>, clock = 0,
       script = [(1, Resp (ok_response JNull))],
       trace = [Invoke ''/functions/call'' ''POST'' (Some ''[]'', None, None)]\<rparr>)"
  using unauthenticated_fails_locally
          [of default_options "signed_out [(1, Resp (ok_response JNull))]" example_config
              "''/functions/call''" "''POST''" "baas_signed_out [(1, Resp (ok_response JNull))]"
              "''https://b''" "Some ''[]''" None None]
  by (simp add: default_options_def signed_out_def baas_signed_out_def authedId_def
        BaasClient_auth_def invoked_def example_config_def)


subsection \<open>Reusing an existing session\<close>

text \<open>
  C10.  A call to \<open>authenticate(providerType, options)\<close> made while the stored
  session holds an access token (one that \<open>if (this.auth.getAccessToken())\<close>
  accepts) resolves with the current \<open>authedId()\<close> and leaves the world as it
  was: the result is the same for every provider registry and every provider
  type, so the provider is not invoked and no network call is made.
\<close>

theorem authenticate_reuses_session:
  assumes "truthy (getAccessToken w)"
  shows "StitchClient_authenticate provider providerType authOptions w = (Inr (authedId w), w)"
  using assms by (simp add: StitchClient_authenticate_def)

theorem authenticate_reuses_session_witness:
  "truthy (getAccessToken (signed_in 500 [])) \<and>
   StitchClient_authenticate no_provider ''no-such-provider'' () (signed_in 500 []) =
     (Inr (Some ''u1''), signed_in 500 [])"
  using authenticate_reuses_session [of "signed_in 500 []" no_provider "''no-such-provider''" "()"]
  by (simp add: signed_in_def getAccessToken_def authedId_def)

subsection \<open>The proactive refresh\<close>

text \<open>
  C1, as amended.  Take a dispatch call with \<open>noAuth\<close> and \<open>useRefreshToken\<close> false,
  an authenticated identity and an expired access token.  When the refresh call
  succeeds, handing out a token \<open>t\<close> that is not expired when it arrives, the
  dispatcher makes exactly one refresh call and then exactly one primary network
  call, and that primary call belongs to a dispatch with \<open>refreshOnFailure\<close>
  false, whatever the caller supplied: nothing follows it, whatever the service
  answers.
\<close>

theorem proactive_refresh_then_single_call:
  assumes "\<not> noAuth opts" "\<not> useRefreshToken opts" "truthy (authedId w)"
    and "isAccessTokenExpired cfg w"
    and "script w = (dt, Resp r) # rest" "grants r t"
    and "tokenExpiry cfg t = Some e" "clock w + dt < e"
  shows "trace (snd (StitchClient_do cfg resource method opts w)) =
     trace w @
     [Invoke resource method opts,
      Fetch ByRefresh (authUrl cfg @ ''/session'') (refresh_args cfg w),
      Invoke resource method (opts\<lparr>refreshOnFailure := False\<rparr>),
      Fetch ByDispatch (request_url cfg resource (opts\<lparr>refreshOnFailure := False\<rparr>))
        (request_args cfg method (opts\<lparr>refreshOnFailure := False\<rparr>)
           (w\<lparr>store := (store w)\<lparr>accessToken := Some t\<rparr>\<rparr>))]"
proof -
  let ?o = "opts\<lparr>refreshOnFailure := False\<rparr>"
  let ?w0 = "invoked resource method opts w"
  let ?w1 = "(answered ByRefresh (authUrl cfg @ ''/session'') (refresh_args cfg ?w0) dt rest ?w0)
               \<lparr>store := (store ?w0)\<lparr>accessToken := Some t\<rparr>\<rparr>"
  have refresh: "Auth_refreshToken cfg ?w0 = (Inr (), ?w1)"
    using assms(5,6) by (simp add: refresh_grants)
  have outer: "StitchClient_do cfg resource method opts w = StitchClient_do cfg resource method ?o ?w1"
    using assms(1-4) by (simp add: do_proactive refresh)
  have reach: "reaches_fetch cfg ?o ?w1"
    using assms(3,7,8)
    by (simp add: reaches_fetch_def authedId_def isAccessTokenExpired_def getAccessToken_def)
  have args: "request_args cfg method ?o ?w1 =
      request_args cfg method ?o (w\<lparr>store := (store w)\<lparr>accessToken := Some t\<rparr>\<rparr>)"
    by (rule request_args_store) simp
  from do_terminal_trace [OF reach, of resource "method"] args show ?thesis
    by (simp add: outer)
qed

text \<open>
  C1 as stated fails when the refresh call fails: the error of the refresh
  propagates and no primary call is made.  Here the renewal endpoint answers 502.
\<close>

theorem proactive_refresh_can_fail:
  "\<not> noAuth default_options \<and> \<not> useRefreshToken default_options \<and>
   truthy (authedId (signed_in 500 [(1, Resp html_response)])) \<and>
   isAccessTokenExpired example_config (signed_in 500 [(1, Resp html_response)]) \<and>
   StitchClient_do example_config ''/auth/me'' ''GET'' default_options
       (signed_in 500 [(1, Resp html_response)]) =
     (Inl (Error ''Bad Gateway'' (Some html_response)),
      \<lparr>store = \<lparr>accessToken = Some ''A1'', refreshToken = Some ''R1'', userId = Some ''u1''\<rparr>,
       clock = 501, script = [],
       trace = [Invoke ''/auth/me'' ''GET'' default_options,
                Fetch ByRefresh ''https://s/api/client/v2.0/app/app1/auth/session''
                  \<lparr>http_method = ''POST'',
                   fa_headers = [(''Accept'', Plain ''application/json''),
                                 (''Content-Type'', Plain ''application/json''),
                                 (''Authorization'', Bearer (Some (JStr ''R1'')))],
                   fa_body = None\<rparr>]\<rparr>)"
  by (simp add: stitch_eval)

theorem proactive_refresh_then_single_call_witness:
  "\<not> noAuth default_options \<and> \<not> useRefreshToken default_options \<and>
   truthy (authedId (signed_in 500 [(1, Resp (ok_response (token_body ''A2''))),
                                     (1, Resp (error_response 401 invalid_session_body))])) \<and>
   isAccessTokenExpired example_config
     (signed_in 500 [(1, Resp (ok_response (token_body ''A2''))),
                     (1, Resp (error_response 401 invalid_session_body))]) \<and>
   grants (ok_response (token_body ''A2'')) ''A2'' \<and>
   tokenExpiry example_config ''A2'' = Some 900 \<and>
   trace (snd (StitchClient_do example_config ''/auth/me'' ''GET'' default_options
                 (signed_in 500 [(1, Resp (ok_response (token_body ''A2''))),
                                 (1, Resp (error_response 401 invalid_session_body))]))) =
     [Invoke ''/auth/me'' ''GET'' default_options,
      Fetch ByRefresh ''https://s/api/client/v2.0/app/app1/auth/session''
        \<lparr>http_method = ''POST'',
         fa_headers = [(''Accept'', Plain ''application/json''),
                       (''Content-Type'', Plain ''application/json''),
                       (''Authorization'', Bearer (Some (JStr ''R1'')))],
         fa_body = None\<rparr>,
      Invoke ''/auth/me'' ''GET'' (default_options\<lparr>refreshOnFailure := False\<rparr>),
      Fetch ByDispatch ''https://s/api/client/v2.0/app/app1/auth/me''
        \<lparr>http_method = ''GET'',
         fa_headers = [(''Accept'', Plain ''application/json''),
                       (''Content-Type'', Plain ''application/json''),
                       (''Authorization'', Bearer (Some (JStr ''A2'')))],
         fa_body = None\<rparr>]"
proof -
  let ?w = "signed_in 500 [(1, Resp (ok_response (token_body ''A2''))),
                           (1, Resp (error_response 401 invalid_session_body))]"
  have h: "\<not> noAuth default_options" "\<not> useRefreshToken default_options"
    "truthy (authedId ?w)" "isAccessTokenExpired example_config ?w"
    "script ?w = (1, Resp (ok_response (token_body ''A2''))) #
                 [(1, Resp (error_response 401 invalid_session_body))]"
    "grants (ok_response (token_body ''A2'')) ''A2''"
    "tokenExpiry example_config ''A2'' = Some 900" "clock ?w + 1 < 900"
    by (simp_all add: default_options_def signed_in_def authedId_def isAccessTokenExpired_def
          getAccessToken_def example_config_def grants_def ok_response_def token_body_def)
  from proactive_refresh_then_single_call [OF h, of "''/auth/me''" "''GET''"]
  have "trace (snd (StitchClient_do example_config ''/auth/me'' ''GET'' default_options ?w)) =
     [Invoke ''/auth/me'' ''GET'' default_options,
      Fetch ByRefresh ''https://s/api/client/v2.0/app/app1/auth/session''
        \<lparr>http_method = ''POST'',
         fa_headers = [(''Accept'', Plain ''application/json''),
                       (''Content-Type'', Plain ''application/json''),
                       (''Authorization'', Bearer (Some (JStr ''R1'')))],
         fa_body = None\<rparr>,
      Invoke ''/auth/me'' ''GET'' (default_options\<lparr>refreshOnFailure := False\<rparr>),
      Fetch ByDispatch ''https://s/api/client/v2.0/app/app1/auth/me''
        \<lparr>http_method = ''GET'',
         fa_headers = [(''Accept'', Plain ''application/json''),
                       (''Content-Type'', Plain ''application/json''),
                       (''Authorization'', Bearer (Some (JStr ''A2'')))],
         fa_body = None\<rparr>]"
    by (simp add: signed_in_def refresh_args_def request_args_def request_url_def
          rootURLsByAPIVersion_def authUrl_def assign_def getAccessToken_def getRefreshToken_def
          example_config_def default_options_def)
  with h show ?thesis by simp
qed

subsection \<open>The retry budget\<close>

text \<open>
  C9, as amended.  A call with \<open>refreshOnFailure\<close> false that reaches its network
  call never recurses: it enters the dispatcher once and makes one primary call.
  Every retry recurses with \<open>refreshOnFailure\<close> false, so the reactive path is
  taken at most once.  The proactive path does not look at \<open>refreshOnFailure\<close>: it
  is taken again whenever the stored access token is still expired.  Hence, when
  the proactive path is off (\<open>noAuth\<close> or \<open>useRefreshToken\<close>), or when the token
  that the first refresh call of the dispatch hands out is unexpired when the
  retry starts, a dispatch enters the dispatcher at most twice and refreshes at
  most once, whatever the rest of the script holds; and otherwise it refreshes at
  least twice.  The four conjuncts: a call with \<open>refreshOnFailure\<close> false; the
  options of every re-entry; the budget kept; the budget exceeded.
\<close>

theorem retry_budget:
  "(reaches_fetch cfg opts w \<and> \<not> refreshOnFailure opts \<longrightarrow>
      trace (snd (StitchClient_do cfg resource method opts w)) =
        trace w @ [Invoke resource method opts,
                   Fetch ByDispatch (request_url cfg resource opts)
                     (request_args cfg method opts w)]) \<and>
   (\<exists>tr. trace (snd (StitchClient_do cfg resource method opts w)) =
           trace w @ Invoke resource method opts # tr \<and>
         (\<forall>ev \<in> set tr. is_Invoke ev \<longrightarrow>
            ev = Invoke resource method (opts\<lparr>refreshOnFailure := False\<rparr>))) \<and>
   (noAuth opts \<or> useRefreshToken opts \<or> fresh_refresh cfg opts w \<longrightarrow>
      (\<exists>tr. trace (snd (StitchClient_do cfg resource method opts w)) = trace w @ tr \<and>
            invocations tr \<le> 2 \<and> refreshes tr \<le> 1)) \<and>
   (\<not> noAuth opts \<and> \<not> useRefreshToken opts \<and> \<not> fresh_refresh cfg opts w \<longrightarrow>
      (\<exists>tr. trace (snd (StitchClient_do cfg resource method opts w)) = trace w @ tr \<and>
            2 \<le> refreshes tr))"
proof -
  have terminal: "trace (snd (StitchClient_do cfg resource method opts w)) =
        trace w @ [Invoke resource method opts,
                   Fetch ByDispatch (request_url cfg resource opts)
                     (request_args cfg method opts w)]"
    if "reaches_fetch cfg opts w \<and> \<not> refreshOnFailure opts"
    using that by (simp add: do_terminal_trace)
  have entries: "\<exists>tr. trace (snd (StitchClient_do cfg resource method opts w)) =
           trace w @ Invoke resource method opts # tr \<and>
         (\<forall>ev \<in> set tr. is_Invoke ev \<longrightarrow>
            ev = Invoke resource method (opts\<lparr>refreshOnFailure := False\<rparr>))"
    by (rule do_invokes)
  have kept: "\<exists>tr. trace (snd (StitchClient_do cfg resource method opts w)) = trace w @ tr \<and>
            invocations tr \<le> 2 \<and> refreshes tr \<le> 1"
    if "noAuth opts \<or> useRefreshToken opts \<or> fresh_refresh cfg opts w"
    using that by (rule budget_kept)
  have exceeded: "\<exists>tr. trace (snd (StitchClient_do cfg resource method opts w)) = trace w @ tr \<and>
            2 \<le> refreshes tr"
    if "\<not> noAuth opts \<and> \<not> useRefreshToken opts \<and> \<not> fresh_refresh cfg opts w"
    using that by (intro budget_exceeded) simp_all
  from terminal entries kept exceeded show ?thesis by blast
qed


text \<open>
  C9 as stated fails on the proactive path.  The session's token is expired; the
  renewal endpoint first hands out a token that cannot be decoded, then one that
  has already expired, then a good one.  The dispatcher is entered four times and
  refreshes three times.
\<close>

theorem proactive_refresh_repeats:
  "invocations (trace (snd (StitchClient_do example_config ''/auth/me'' ''GET'' default_options
       (signed_in 500 [(1, Resp (ok_response (token_body ''opaque''))),
                       (1, Resp (ok_response (token_body ''A1''))),
                       (1, Resp (ok_response (token_body ''A2''))),
                       (1, Resp (ok_response JNull))])))) = 4 \<and>
   refreshes (trace (snd (StitchClient_do example_config ''/auth/me'' ''GET'' default_options
       (signed_in 500 [(1, Resp (ok_response (token_body ''opaque''))),
                       (1, Resp (ok_response (token_body ''A1''))),
                       (1, Resp (ok_response (token_body ''A2''))),
                       (1, Resp (ok_response JNull))])))) = 3"
  by (simp add: stitch_eval)

theorem retry_budget_witness:
  "reaches_fetch example_config (default_options\<lparr>refreshOnFailure := False\<rparr>)
     (signed_in 50 [(1, Resp (error_response 401 invalid_session_body)),
                    (1, Resp (ok_response (token_body ''A2'')))]) \<and>
   \<not> refreshOnFailure (default_options\<lparr>refreshOnFailure := False\<rparr>) \<and>
   invocations (trace (snd (StitchClient_do example_config ''/auth/me'' ''GET''
       (default_options\<lparr>refreshOnFailure := False\<rparr>)
       (signed_in 50 [(1, Resp (error_response 401 invalid_session_body)),
                      (1, Resp (ok_response (token_body ''A2'')))])))) = 1 \<and>
   refreshes (trace (snd (StitchClient_do example_config ''/auth/me'' ''GET''
       (default_options\<lparr>refreshOnFailure := False\<rparr>)
       (signed_in 50 [(1, Resp (error_response 401 invalid_session_body)),
                      (1, Resp (ok_response (token_body ''A2'')))])))) = 0 \<and>
   fresh_refresh example_config default_options
     (signed_in 500 [(1, Resp (ok_response (token_body ''A2''))),
                     (1, Resp (error_response 401 invalid_session_body)),
                     (1, Resp (ok_response (token_body ''A1'')))]) \<and>
   invocations (trace (snd (StitchClient_do example_config ''/auth/me'' ''GET'' default_options
       (signed_in 500 [(1, Resp (ok_response (token_body ''A2''))),
                       (1, Resp (error_response 401 invalid_session_body)),
                       (1, Resp (ok_response (token_body ''A1'')))])))) \<le> 2 \<and>
   refreshes (trace (snd (StitchClient_do example_config ''/auth/me'' ''GET'' default_options
       (signed_in 500 [(1, Resp (ok_response (token_body ''A2''))),
                       (1, Resp (error_response 401 invalid_session_body)),
                       (1, Resp (ok_response (token_body ''A1'')))])))) \<le> 1 \<and>
   \<not> noAuth default_options \<and> \<not> useRefreshToken default_options \<and>
   \<not> fresh_refresh example_config default_options
       (signed_in 50 [(1, Resp (error_response 401 invalid_session_body)),
                      (1, Resp (ok_response (token_body ''opaque''))),
                      (1, Resp (ok_response (token_body ''A2''))),
                      (1, Resp (ok_response JNull))]) \<and>
   2 \<le> refreshes (trace (snd (StitchClient_do example_config ''/auth/me'' ''GET'' default_options
       (signed_in 50 [(1, Resp (error_response 401 invalid_session_body)),
                      (1, Resp (ok_response (token_body ''opaque''))),
                      (1, Resp (ok_response (token_body ''A2''))),
                      (1, Resp (ok_response JNull))]))))"
proof -
  let ?o1 = "default_options\<lparr>refreshOnFailure := False\<rparr>"
  let ?w1 = "signed_in 50 [(1, Resp (error_response 401 invalid_session_body)),
                           (1, Resp (ok_response (token_body ''A2'')))]"
  let ?w2 = "signed_in 500 [(1, Resp (ok_response (token_body ''A2''))),
                            (1, Resp (error_response 401 invalid_session_body)),
                            (1, Resp (ok_response (token_body ''A1'')))]"
  let ?w3 = "signed_in 50 [(1, Resp (error_response 401 invalid_session_body)),
                           (1, Resp (ok_response (token_body ''opaque''))),
                           (1, Resp (ok_response (token_body ''A2''))),
                           (1, Resp (ok_response JNull))]"
  note defs = reaches_fetch_def default_options_def signed_in_def authedId_def
    isAccessTokenExpired_def getAccessToken_def example_config_def fresh_refresh_def
    first_refresh_def fresh_token_def granted_token_def invalid_session_next_def
    invalid_session_def ok_response_def error_response_def token_body_def
    invalid_session_body_def
  have h1: "reaches_fetch example_config ?o1 ?w1 \<and> \<not> refreshOnFailure ?o1"
    by (simp add: defs)
  with retry_budget [of example_config ?o1 ?w1 "''/auth/me''" "''GET''"]
  have "trace (snd (StitchClient_do example_config ''/auth/me'' ''GET'' ?o1 ?w1)) =
        trace ?w1 @ [Invoke ''/auth/me'' ''GET'' ?o1,
                   Fetch ByDispatch (request_url example_config ''/auth/me'' ?o1)
                     (request_args example_config ''GET'' ?o1 ?w1)]"
    by blast
  then have c1: "invocations (trace (snd (StitchClient_do example_config ''/auth/me'' ''GET'' ?o1 ?w1))) = 1"
    "refreshes (trace (snd (StitchClient_do example_config ''/auth/me'' ''GET'' ?o1 ?w1))) = 0"
    by (simp_all add: signed_in_def)
  have h2: "fresh_refresh example_config default_options ?w2"
    by (simp add: defs)
  with retry_budget [of example_config default_options ?w2 "''/auth/me''" "''GET''"]
  obtain tr where
    "trace (snd (StitchClient_do example_config ''/auth/me'' ''GET'' default_options ?w2)) =
       trace ?w2 @ tr" "invocations tr \<le> 2" "refreshes tr \<le> 1"
    by blast
  then have c2:
    "invocations (trace (snd (StitchClient_do example_config ''/auth/me'' ''GET'' default_options ?w2))) \<le> 2"
    "refreshes (trace (snd (StitchClient_do example_config ''/auth/me'' ''GET'' default_options ?w2))) \<le> 1"
    by (simp_all add: signed_in_def)
  have h3: "\<not> noAuth default_options" "\<not> useRefreshToken default_options"
    "\<not> fresh_refresh example_config default_options ?w3"
    by (simp_all add: defs)
  with retry_budget [of example_config default_options ?w3 "''/auth/me''" "''GET''"]
  obtain tr3 where
    "trace (snd (StitchClient_do example_config ''/auth/me'' ''GET'' default_options ?w3)) =
       trace ?w3 @ tr3" "2 \<le> refreshes tr3"
    by blast
  then have c3:
    "2 \<le> refreshes (trace (snd (StitchClient_do example_config ''/auth/me'' ''GET'' default_options ?w3)))"
    by (simp add: signed_in_def)
  from h1 c1 h2 c2 h3 c3 show ?thesis by blast
qed

subsection \<open>The reactive refresh\<close>






subsection \<open>Calls that need no authentication\<close>

text \<open>
  C5, as amended.  For every dispatch call with \<open>noAuth\<close> true, no identity
  check, expiry check or proactive refresh precedes the primary request: it is the
  first network call, and the dispatcher adds no \<open>Authorization\<close> header to it
  (its headers are those of \<open>makeFetchArgs\<close> with the caller's headers merged over
  them, whatever the token store holds).  Unless the response is a structured
  invalid-session error, that is the only network call, and the call neither
  reads nor changes the token store: it runs the same over any store and leaves
  the store as it was.
\<close>

theorem noAuth_skips_credentials:
  "noAuth opts \<longrightarrow>
     request_args cfg method opts w = public_args cfg method opts \<and>
     map_of (fa_headers (public_args cfg method opts)) ''Authorization'' =
       (case headers opts of
          None \<Rightarrow> map_of (fa_headers (makeFetchArgs cfg method (body opts))) ''Authorization''
        | Some hs \<Rightarrow>
            (map_of (fa_headers (makeFetchArgs cfg method (body opts))) ++ map_of (rev hs))
              ''Authorization'') \<and>
     (\<exists>tr. trace (snd (StitchClient_do cfg resource method opts w)) =
             trace w @ Invoke resource method opts #
               Fetch ByDispatch (request_url cfg resource opts) (public_args cfg method opts) # tr) \<and>
     (\<not> invalid_session_next cfg w \<longrightarrow>
        trace (snd (StitchClient_do cfg resource method opts w)) =
          trace w @ [Invoke resource method opts,
                     Fetch ByDispatch (request_url cfg resource opts)
                       (public_args cfg method opts)] \<and>
        store (snd (StitchClient_do cfg resource method opts w)) = store w \<and>
        StitchClient_do cfg resource method opts (w\<lparr>store := s\<rparr>) =
          (fst (StitchClient_do cfg resource method opts w),
           (snd (StitchClient_do cfg resource method opts w))\<lparr>store := s\<rparr>))"
proof
  assume na: "noAuth opts"
  let ?o = "opts\<lparr>refreshOnFailure := False\<rparr>"
  let ?w0 = "invoked resource method opts w"
  let ?url = "request_url cfg resource opts"
  let ?args = "public_args cfg method opts"
  let ?do = "StitchClient_do cfg resource method opts w"
  from na have reach: "reaches_fetch cfg opts w'" for w' by (simp add: reaches_fetch_def)
  from na have args: "request_args cfg method opts w' = ?args" for w'
    by (rule request_args_noAuth)
  have hdr: "map_of (fa_headers ?args) ''Authorization'' =
       (case headers opts of
          None \<Rightarrow> map_of (fa_headers (makeFetchArgs cfg method (body opts))) ''Authorization''
        | Some hs \<Rightarrow>
            (map_of (fa_headers (makeFetchArgs cfg method (body opts))) ++ map_of (rev hs))
              ''Authorization'')"
    by (simp add: public_args_def Let_def map_of_assign split: option.splits)
  have prefix: "\<exists>tr. trace (snd ?do) = trace w @ Invoke resource method opts #
                       Fetch ByDispatch ?url ?args # tr"
  proof (cases "invalid_session_next cfg w \<and> refreshOnFailure opts")
    case False
    then consider "\<not> invalid_session_next cfg w" | "\<not> refreshOnFailure opts" by blast
    then show ?thesis
    proof cases
      case 1
      with reach show ?thesis by (simp add: do_settles fetch_trace args)
    next
      case 2
      with reach show ?thesis by (simp add: do_terminal_trace args)
    qed
  next
    case True
    then obtain dt r rest j where sc: "script w = (dt, Resp r) # rest"
      and inv: "invalid_session cfg r"
      by (blast dest: invalid_session_nextD)
    let ?w1 = "answered ByDispatch ?url ?args dt rest ?w0"
    obtain x w2 where r: "Auth_refreshToken cfg ?w1 = (x, w2)" by (cases "Auth_refreshToken cfg ?w1")
    from refresh_trace [of cfg ?w1] r
    have t2: "trace w2 = trace w @ [Invoke resource method opts, Fetch ByDispatch ?url ?args,
                Fetch ByRefresh (authUrl cfg @ ''/session'') (refresh_args cfg ?w1)]"
      by simp
    from reach sc inv True
    have unfold: "?do = (case Auth_refreshToken cfg ?w1 of
                           (Inl e, w2) \<Rightarrow> (Inl e, w2)
                         | (Inr u, w2) \<Rightarrow> StitchClient_do cfg resource method ?o w2)"
      by (simp add: do_invalid_retry args)
    show ?thesis
    proof (cases x)
      case (Inl e)
      with unfold r t2 show ?thesis by simp
    next
      case (Inr u)
      from do_invokes [of cfg resource "method" ?o w2] obtain tr where
        "trace (snd (StitchClient_do cfg resource method ?o w2)) =
           trace w2 @ Invoke resource method ?o # tr"
        by blast
      with unfold r Inr t2 show ?thesis by simp
    qed
  qed
  have alone: "trace (snd ?do) = trace w @ [Invoke resource method opts, Fetch ByDispatch ?url ?args] \<and>
        store (snd ?do) = store w \<and>
        StitchClient_do cfg resource method opts (w\<lparr>store := s\<rparr>) = (fst ?do, (snd ?do)\<lparr>store := s\<rparr>)"
    if quiet: "\<not> invalid_session_next cfg w"
  proof -
    from quiet have quiet': "\<not> invalid_session_next cfg (w\<lparr>store := s\<rparr>)"
      by (simp add: invalid_session_next_def)
    from reach quiet have d: "?do = (settle cfg (fst (fetch ByDispatch ?url ?args ?w0)),
                                     snd (fetch ByDispatch ?url ?args ?w0))"
      by (simp add: do_settles args)
    from reach quiet'
    have d': "StitchClient_do cfg resource method opts (w\<lparr>store := s\<rparr>) =
        (settle cfg (fst (fetch ByDispatch ?url ?args ?w0)),
         (snd (fetch ByDispatch ?url ?args ?w0))\<lparr>store := s\<rparr>)"
      by (simp add: do_settles args invoked_store_update fetch_store_update)
    from d d' show ?thesis by (simp add: fetch_trace fetch_store)
  qed
  from args [of w] hdr prefix alone
  show "request_args cfg method opts w = public_args cfg method opts \<and>
     map_of (fa_headers (public_args cfg method opts)) ''Authorization'' =
       (case headers opts of
          None \<Rightarrow> map_of (fa_headers (makeFetchArgs cfg method (body opts))) ''Authorization''
        | Some hs \<Rightarrow>
            (map_of (fa_headers (makeFetchArgs cfg method (body opts))) ++ map_of (rev hs))
              ''Authorization'') \<and>
     (\<exists>tr. trace (snd (StitchClient_do cfg resource method opts w)) =
             trace w @ Invoke resource method opts #
               Fetch ByDispatch (request_url cfg resource opts) (public_args cfg method opts) # tr) \<and>
     (\<not> invalid_session_next cfg w \<longrightarrow>
        trace (snd (StitchClient_do cfg resource method opts w)) =
          trace w @ [Invoke resource method opts,
                     Fetch ByDispatch (request_url cfg resource opts)
                       (public_args cfg method opts)] \<and>
        store (snd (StitchClient_do cfg resource method opts w)) = store w \<and>
        StitchClient_do cfg resource method opts (w\<lparr>store := s\<rparr>) =
          (fst (StitchClient_do cfg resource method opts w),
           (snd (StitchClient_do cfg resource method opts w))\<lparr>store := s\<rparr>))"
    by blast
qed


text \<open>
  C5 as stated fails on the reactive path, which \<open>noAuth\<close> does not switch off.
  A call with \<open>noAuth\<close> true and the default \<open>refreshOnFailure\<close> receives an
  invalid-session error: the dispatcher refreshes, reading the refresh token
  \<open>R1\<close> from the store and writing the new access token \<open>A2\<close> to it, and retries.
\<close>

theorem noAuth_call_can_refresh:
  "noAuth (default_options\<lparr>noAuth := True\<rparr>) \<and>
   StitchClient_do example_config ''/auth/me'' ''GET'' (default_options\<lparr>noAuth := True\<rparr>)
       (signed_in 50 [(1, Resp (error_response 401 invalid_session_body)),
                      (1, Resp (ok_response (token_body ''A2''))),
                      (1, Resp (ok_response JNull))]) =
     (Inr (ok_response JNull),
      \<lparr>store = \<lparr>accessToken = Some ''A2'', refreshToken = Some ''R1'', userId = Some ''u1''\<rparr>,
       clock = 53, script = [],
       trace = [Invoke ''/auth/me'' ''GET'' (default_options\<lparr>noAuth := True\<rparr>),
                Fetch ByDispatch ''https://s/api/client/v2.0/app/app1/auth/me''
                  \<lparr>http_method = ''GET'',
                   fa_headers = [(''Accept'', Plain ''application/json''),
                                 (''Content-Type'', Plain ''application/json'')],
                   fa_body = None\<rparr>,
                Fetch ByRefresh ''https://s/api/client/v2.0/app/app1/auth/session''
                  \<lparr>http_method = ''POST'',
                   fa_headers = [(''Accept'', Plain ''application/json''),
                                 (''Content-Type'', Plain ''application/json''),
                                 (''Authorization'', Bearer (Some (JStr ''R1'')))],
                   fa_body = None\<rparr>,
                Invoke ''/auth/me'' ''GET''
                  (default_options\<lparr>noAuth := True, refreshOnFailure := False\<rparr>),
                Fetch ByDispatch ''https://s/api/client/v2.0/app/app1/auth/me''
                  \<lparr>http_method = ''GET'',
                   fa_headers = [(''Accept'', Plain ''application/json''),
                                 (''Content-Type'', Plain ''application/json'')],
                   fa_body = None\<rparr>]\<rparr>)"
  by (simp add: stitch_eval)

theorem noAuth_skips_credentials_witness:
  "noAuth (default_options\<lparr>noAuth := True\<rparr>) \<and>
   \<not> invalid_session_next example_config (signed_out [(1, Resp (ok_response (token_body ''A2'')))]) \<and>
   request_args example_config ''POST'' (default_options\<lparr>noAuth := True\<rparr>)
       (signed_out [(1, Resp (ok_response (token_body ''A2'')))]) =
     \<lparr>http_method = ''POST'',
      fa_headers = [(''Accept'', Plain ''application/json''),
                    (''Content-Type'', Plain ''application/json'')],
      fa_body = None\<rparr> \<and>
   map_of (fa_headers (public_args example_config ''POST'' (default_options\<lparr>noAuth := True\<rparr>)))
       ''Authorization'' = None \<and>
   trace (snd (StitchClient_do example_config ''/login'' ''POST''
                 (default_options\<lparr>noAuth := True\<rparr>)
                 (signed_out [(1, Resp (ok_response (token_body ''A2'')))]))) =
     [Invoke ''/login'' ''POST'' (default_options\<lparr>noAuth := True\<rparr>),
      Fetch ByDispatch ''https://s/api/client/v2.0/app/app1/login''
        \<lparr>http_method = ''POST'',
         fa_headers = [(''Accept'', Plain ''application/json''),
                       (''Content-Type'', Plain ''application/json'')],
         fa_body = None\<rparr>] \<and>
   store (snd (StitchClient_do example_config ''/login'' ''POST''
                 (default_options\<lparr>noAuth := True\<rparr>)
                 (signed_out [(1, Resp (ok_response (token_body ''A2'')))]))) =
     \<lparr>accessToken = None, refreshToken = None, userId = None\<rparr> \<and>
   fst (StitchClient_do example_config ''/login'' ''POST'' (default_options\<lparr>noAuth := True\<rparr>)
          ((signed_out [(1, Resp (ok_response (token_body ''A2'')))])
             \<lparr>store := \<lparr>accessToken = Some ''A1'', refreshToken = Some ''R1'',
                         userId = Some ''u1''\<rparr>\<rparr>)) =
     fst (StitchClient_do example_config ''/login'' ''POST'' (default_options\<lparr>noAuth := True\<rparr>)
            (signed_out [(1, Resp (ok_response (token_body ''A2'')))]))"
proof -
  let ?o = "default_options\<lparr>noAuth := True\<rparr>"
  let ?w = "signed_out [(1, Resp (ok_response (token_body ''A2'')))]"
  let ?s = "\<lparr>accessToken = Some ''A1'', refreshToken = Some ''R1'', userId = Some ''u1''\<rparr>"
  have h: "noAuth ?o" "\<not> invalid_session_next example_config ?w"
    by (simp_all add: invalid_session_next_def invalid_session_def signed_out_def ok_response_def)
  have p: "public_args example_config ''POST'' ?o =
     \<lparr>http_method = ''POST'',
      fa_headers = [(''Accept'', Plain ''application/json''),
                    (''Content-Type'', Plain ''application/json'')],
      fa_body = None\<rparr>"
    "request_url example_config ''/login'' ?o = ''https://s/api/client/v2.0/app/app1/login''"
    by (simp_all add: public_args_def request_url_def rootURLsByAPIVersion_def example_config_def
          default_options_def)
  from noAuth_skips_credentials [of ?o example_config "''POST''" ?w "''/login''" ?s] h
  have "request_args example_config ''POST'' ?o ?w = public_args example_config ''POST'' ?o"
    "trace (snd (StitchClient_do example_config ''/login'' ''POST'' ?o ?w)) =
       trace ?w @ [Invoke ''/login'' ''POST'' ?o,
                   Fetch ByDispatch (request_url example_config ''/login'' ?o)
                     (public_args example_config ''POST'' ?o)]"
    "store (snd (StitchClient_do example_config ''/login'' ''POST'' ?o ?w)) = store ?w"
    "StitchClient_do example_config ''/login'' ''POST'' ?o (?w\<lparr>store := ?s\<rparr>) =
       (fst (StitchClient_do example_config ''/login'' ''POST'' ?o ?w),
        (snd (StitchClient_do example_config ''/login'' ''POST'' ?o ?w))\<lparr>store := ?s\<rparr>)"
    by blast+
  with h p show ?thesis by (simp add: signed_out_def)
qed

subsection \<open>Re-invocations\<close>



subsection \<open>Defects of the legacy client\<close>

text \<open>
  \<open>StitchClient._do\<close> does what C3 and C6 say: \<open>do_invalid_terminal\<close> (the
  invalid-session error of a call with \<open>refreshOnFailure\<close> false carries the
  response and the decoded body, and the store is cleared),
  \<open>do_structured_error\<close> and \<open>do_plain_error\<close> (every other error response is
  raised, with the response attached).  \<open>BaasClient._doAuthed\<close> misses both, each
  in a branch of its own, and \<open>BaasClient._refreshToken\<close> misses C8 in the same
  way; the theorems below run them on inputs that show this.
\<close>

text \<open>
  C3.  With \<open>refreshOnFailure\<close> false and an invalid-session response, the legacy
  dispatcher clears the store and makes no refresh call, as claimed, but it throws
  \<open>new Error(json)\<close>: the error carries no response, and of the decoded body only
  the text \<open>[object Object]\<close> that \<open>String\<close> gives for an object.
\<close>

theorem legacy_invalid_session_error_drops_response:
  "BaasClient_doAuthed ''https://b'' ''/pipeline'' ''POST'' (Some ''[]'') (Some False) None
     (baas_signed_in [(1, Resp (error_response 401 invalid_session_body))]) =
   (Inl (Error ''[object Object]'' None),
    \<lparr>store = \<lparr>baas_ua = None, baas_rt = None\<rparr>, clock = 1, script = [],
     trace = [Invoke ''/pipeline'' ''POST'' (Some ''[]'', Some False, None),
              Fetch ByDispatch ''https://b/pipeline''
                \<lparr>http_method = ''POST'',
                 fa_headers = [(''Accept'', Plain ''application/json''),
                               (''Content-Type'', Plain ''application/json''),
                               (''Authorization'', Bearer (Some (JStr ''A1'')))],
                 fa_body = Some ''[]''\<rparr>]\<rparr>)"
  by (simp add: baas_eval)

text \<open>
  C6.  A response with status 400, the JSON content type and a body whose error
  code is not the invalid-session code: the \<open>then\<close> callback of the legacy
  dispatcher falls off its end, so the promise resolves with \<open>undefined\<close>
  (\<open>Inr None\<close>) and no error reaches the caller.
\<close>

theorem legacy_structured_error_swallowed:
  "BaasClient_doAuthed ''https://b'' ''/pipeline'' ''POST'' (Some ''[]'') None None
     (baas_signed_in [(1, Resp (error_response 400 other_error_body))]) =
   (Inr None,
    \<lparr>store = \<lparr>baas_ua = Some (JObj [(''accessToken'', JStr ''A1''),
                                    (''user'', JObj [(''_id'', JStr ''u1'')])]),
              baas_rt = Some ''R1''\<rparr>,
     clock = 1, script = [],
     trace = [Invoke ''/pipeline'' ''POST'' (Some ''[]'', None, None),
              Fetch ByDispatch ''https://b/pipeline''
                \<lparr>http_method = ''POST'',
                 fa_headers = [(''Accept'', Plain ''application/json''),
                               (''Content-Type'', Plain ''application/json''),
                               (''Authorization'', Bearer (Some (JStr ''A1'')))],
                 fa_body = Some ''[]''\<rparr>]\<rparr>)"
  by (simp add: baas_eval)

text \<open>
  C8.  \<open>BaasClient._refreshToken\<close> keeps the frame that C8 describes: a successful
  run changes only the \<open>accessToken\<close> property of the stored auth object
  (\<open>baas_refresh_frame\<close>), a run that fails on an invalid-session signal leaves the
  session cleared (\<open>baas_refresh_invalid\<close>), any other failing run leaves the
  session unchanged (\<open>baas_refresh_other\<close>), and every run makes the renewal
  request and nothing else (\<open>baas_refresh_trace\<close>).  But the error of a structured
  failure does not propagate as it is: line 565 throws \<open>new Error(json)\<close>, so the
  caller receives an error whose message is the text \<open>[object Object]\<close>, with no
  response and none of the decoded error code and message; when the body has an
  own \<open>toString\<close> property the conversion itself throws, and the caller receives
  a \<open>TypeError\<close>.
\<close>

theorem legacy_refresh_error_drops_body:
  "BaasClient_refreshToken ''https://b''
     (baas_signed_in [(1, Resp (error_response 400 other_error_body))]) =
   (Inl (Error ''[object Object]'' None),
    \<lparr>store = \<lparr>baas_ua = Some (JObj [(''accessToken'', JStr ''A1''),
                                    (''user'', JObj [(''_id'', JStr ''u1'')])]),
              baas_rt = Some ''R1''\<rparr>,
     clock = 1, script = [],
     trace = [Fetch ByRefresh ''https://b/auth/newAccessToken''
                \<lparr>http_method = ''POST'',
                 fa_headers = [(''Accept'', Plain ''application/json''),
                               (''Content-Type'', Plain ''application/json''),
                               (''Authorization'', Bearer (Some (JStr ''R1'')))],
                 fa_body = None\<rparr>]\<rparr>) \<and>
   fst (BaasClient_refreshToken ''https://b''
     (baas_signed_in
        [(1, Resp (error_response 400
                     (JObj [(''error'', JStr ''bad request''), (''errorCode'', JStr ''BadRequest''),
                            (''toString'', JStr ''x'')])))])) =
     Inl TypeError"
  by (simp add: baas_eval)

end
